theory Spec2Isabelle
  imports Complex_Main
begin

section \<open>Tensors\<close>

text \<open>
  The script \<^verbatim>\<open>main.py\<close> is glue over Keras, TensorFlow and NumPy. In the training
  step tensor entries are modelled as real numbers: the rounding of 32-bit floats is
  outside this development, and NaN and the infinities enter only where the ranges of
  values are at stake, in the section on float32 values. A tensor with a batch axis is
  the list of its examples; each example is stored flattened in row-major order, so a
  tensor of shape \<open>(batch, dim)\<close> is the list of its rows.
\<close>

type_synonym tensor = "real list list"

text \<open>A standard-normal generator: asked for a shape \<open>(batch, dim)\<close>, it returns the draw.\<close>

type_synonym noise = "nat \<times> nat \<Rightarrow> tensor"

definition has_shape :: "nat \<Rightarrow> nat \<Rightarrow> tensor \<Rightarrow> bool" where
  "has_shape b d t \<longleftrightarrow> length t = b \<and> list_all (\<lambda>r. length r = d) t"

text \<open>
  The elementwise operators of TensorFlow, on operands of one shape. On operands of
  different shapes TensorFlow broadcasts or raises; the script applies them only to the
  two heads of the encoder and to noise drawn with the shape of \<open>z_mean\<close>, and every
  theorem below states the equal shapes as a hypothesis.
\<close>

definition t_add :: "tensor \<Rightarrow> tensor \<Rightarrow> tensor" where
  "t_add a b = map2 (map2 (+)) a b"

definition t_sub :: "tensor \<Rightarrow> tensor \<Rightarrow> tensor" where
  "t_sub a b = map2 (map2 (-)) a b"

definition t_mul :: "tensor \<Rightarrow> tensor \<Rightarrow> tensor" where
  "t_mul a b = map2 (map2 (*)) a b"

text \<open>A Python scalar on the left of a tensor is broadcast to every entry.\<close>

definition s_add :: "real \<Rightarrow> tensor \<Rightarrow> tensor" where
  "s_add c a = map (map (\<lambda>v. c + v)) a"

definition s_mul :: "real \<Rightarrow> tensor \<Rightarrow> tensor" where
  "s_mul c a = map (map (\<lambda>v. c * v)) a"

definition t_exp :: "tensor \<Rightarrow> tensor" where
  "t_exp a = map (map exp) a"

definition t_square :: "tensor \<Rightarrow> tensor" where
  "t_square a = map (map (\<lambda>v. v * v)) a"

text \<open>\<^verbatim>\<open>tf.reduce_sum(t, axis=1)\<close> on a tensor of shape \<open>(batch, dim)\<close>.\<close>

definition reduce_sum_axis_1 :: "tensor \<Rightarrow> real list" where
  "reduce_sum_axis_1 t = map sum_list t"

text \<open>\<^verbatim>\<open>tf.reduce_sum(t, axis=(1, 2))\<close> on a tensor of shape \<open>(batch, h, w)\<close>.\<close>

definition reduce_sum_axes_1_2 :: "real list list list \<Rightarrow> real list" where
  "reduce_sum_axes_1_2 t = map (\<lambda>e. sum_list (map sum_list e)) t"

text \<open>
  \<^verbatim>\<open>tf.reduce_mean\<close> of a vector. On the empty vector TensorFlow returns NaN, and the
  division below returns 0: the theorems about a mean assume a batch that is not empty.
\<close>

definition reduce_mean :: "real list \<Rightarrow> real" where
  "reduce_mean v = sum_list v / real (length v)"

section \<open>The sampling layer\<close>

text \<open>
  \<^verbatim>\<open>Sampling.call\<close>. \<open>tf.shape(z_mean)[1]\<close> is read from the first row; for the empty
  batch the requested noise has no entry whatever the second dimension is.
\<close>

definition Sampling_call :: "noise \<Rightarrow> tensor \<times> tensor \<Rightarrow> tensor" where
  "Sampling_call random_normal inputs =
     (let (z_mean, z_log_var) = inputs;
          batch = length z_mean;
          dim = (case z_mean of [] \<Rightarrow> 0 | r # _ \<Rightarrow> length r);
          epsilon = random_normal (batch, dim)
      in t_add z_mean (t_mul (t_exp (s_mul 0.5 z_log_var)) epsilon))"

section \<open>Layers\<close>

text \<open>
  The layers the script instantiates, with the arguments it passes: filters, kernel size,
  activation, strides and padding for the convolutions, units and activation for
  \<open>Dense\<close>. Arguments the script leaves out take the defaults of Keras (stride 1, no
  activation).
\<close>

datatype activation = Linear | Relu | Tanh

datatype padding = Valid | Same

datatype layer =
    Conv2D nat nat activation nat padding
  | BatchNormalization
  | Dropout real
  | Flatten
  | Dense nat activation
  | Reshape "nat list"
  | Conv2DTranspose nat nat activation nat padding

fun activation_fn :: "activation \<Rightarrow> real \<Rightarrow> real" where
  "activation_fn Linear v = v"
| "activation_fn Relu v = max 0 v"
| "activation_fn Tanh v = tanh v"

fun layer_activation :: "layer \<Rightarrow> activation" where
  "layer_activation (Conv2D f k a s p) = a"
| "layer_activation (Dense u a) = a"
| "layer_activation (Conv2DTranspose f k a s p) = a"
| "layer_activation BatchNormalization = Linear"
| "layer_activation (Dropout r) = Linear"
| "layer_activation Flatten = Linear"
| "layer_activation (Reshape s) = Linear"

text \<open>
  The shape of one example after a layer, by the shape rules of the Keras layers (library
  code the script relies on): with padding \<open>same\<close> a convolution of stride \<open>s\<close> divides
  height and width by \<open>s\<close>, rounding up, and a transposed convolution multiplies them by
  \<open>s\<close>. \<open>None\<close> is the error Keras raises when the layer does not fit the shape.
\<close>

definition ceil_div :: "nat \<Rightarrow> nat \<Rightarrow> nat" where
  "ceil_div n s = (n + s - 1) div s"

fun conv_dim :: "nat \<Rightarrow> nat \<Rightarrow> padding \<Rightarrow> nat \<Rightarrow> nat option" where
  "conv_dim k s Same n = (if s = 0 \<or> k = 0 then None else Some (ceil_div n s))"
| "conv_dim k s Valid n = (if s = 0 \<or> k = 0 \<or> n < k then None else Some ((n - k) div s + 1))"

fun deconv_dim :: "nat \<Rightarrow> nat \<Rightarrow> padding \<Rightarrow> nat \<Rightarrow> nat option" where
  "deconv_dim k s Same n = (if s = 0 \<or> k = 0 then None else Some (n * s))"
| "deconv_dim k s Valid n = (if s = 0 \<or> k = 0 then None else Some (n * s + (k - s)))"

fun output_shape :: "layer \<Rightarrow> nat list \<Rightarrow> nat list option" where
  "output_shape (Conv2D f k a s p) [h, w, c] =
     (case (conv_dim k s p h, conv_dim k s p w) of
        (Some h', Some w') \<Rightarrow> Some [h', w', f]
      | _ \<Rightarrow> None)"
| "output_shape (Conv2D f k a s p) _ = None"
| "output_shape (Conv2DTranspose f k a s p) [h, w, c] =
     (case (deconv_dim k s p h, deconv_dim k s p w) of
        (Some h', Some w') \<Rightarrow> Some [h', w', f]
      | _ \<Rightarrow> None)"
| "output_shape (Conv2DTranspose f k a s p) _ = None"
| "output_shape BatchNormalization sh = Some sh"
| "output_shape (Dropout r) sh = Some sh"
| "output_shape Flatten sh = Some [prod_list sh]"
| "output_shape (Dense u a) [] = None"
| "output_shape (Dense u a) sh = Some (butlast sh @ [u])"
| "output_shape (Reshape tgt) sh = (if prod_list tgt = prod_list sh then Some tgt else None)"

fun model_shape :: "layer list \<Rightarrow> nat list \<Rightarrow> nat list option" where
  "model_shape [] sh = Some sh"
| "model_shape (l # ls) sh =
     (case output_shape l sh of None \<Rightarrow> None | Some sh' \<Rightarrow> model_shape ls sh')"

section \<open>The runtime\<close>

text \<open>
  What the script takes from Keras and TensorFlow and does not define: the computation
  of each layer before its activation (convolution, normalisation, dropout, the affine
  map of a dense layer) under the current weights \<open>'w\<close>, the binary cross-entropy, the
  gradient recorded by the tape, the optimizer and its update of the weights, and the
  shuffling of the dataset. They are parameters of the model: every theorem holds for
  any runtime. A layer is found by the name of its model and its position there.
\<close>

datatype invocation = Call | Predict

datatype optimizer_spec = Adam real

record ('w, 'g, 'o) runtime =
  layer_op :: "'w \<Rightarrow> invocation \<Rightarrow> string \<Rightarrow> nat \<Rightarrow> layer \<Rightarrow> tensor \<Rightarrow> tensor"
  binary_crossentropy :: "tensor \<Rightarrow> tensor \<Rightarrow> real list list list"
  tape_gradient :: "('w \<Rightarrow> real) \<Rightarrow> 'w \<Rightarrow> 'g"
  apply_gradients :: "'o \<Rightarrow> 'g \<Rightarrow> 'w \<Rightarrow> 'o \<times> 'w"
  new_optimizer :: "optimizer_spec \<Rightarrow> 'o"
  shuffle :: "nat \<Rightarrow> tensor \<Rightarrow> tensor"

definition apply_layer ::
  "('w, 'g, 'o) runtime \<Rightarrow> 'w \<Rightarrow> invocation \<Rightarrow> string \<Rightarrow> nat \<Rightarrow> layer \<Rightarrow> tensor \<Rightarrow> tensor" where
  "apply_layer rt w mode m i l x =
     map (map (activation_fn (layer_activation l))) (layer_op rt w mode m i l x)"

fun run_layers ::
  "('w, 'g, 'o) runtime \<Rightarrow> 'w \<Rightarrow> invocation \<Rightarrow> string \<Rightarrow> nat \<Rightarrow> layer list \<Rightarrow> tensor \<Rightarrow> tensor" where
  "run_layers rt w mode m i [] x = x"
| "run_layers rt w mode m i (l # ls) x =
     run_layers rt w mode m (Suc i) ls (apply_layer rt w mode m i l x)"

section \<open>Encoder and decoder\<close>

definition latent_dim :: nat where
  "latent_dim = 32"

definition encoder_input_shape :: "nat list" where
  "encoder_input_shape = [60, 60, 3]"

text \<open>The layers from \<open>encoder_inputs\<close> to the shared feature vector \<open>x\<close>.\<close>

definition encoder_layers :: "layer list" where
  "encoder_layers =
     [Conv2D 32 3 Relu 2 Same,
      BatchNormalization,
      Dropout 0.5,
      Conv2D 64 3 Relu 2 Same,
      Flatten,
      Dense 16 Relu]"

definition z_mean_layer :: layer where
  "z_mean_layer = Dense latent_dim Linear"

definition z_log_var_layer :: layer where
  "z_log_var_layer = Dense latent_dim Linear"

definition encoder ::
  "('w, 'g, 'o) runtime \<Rightarrow> 'w \<Rightarrow> invocation \<Rightarrow> noise \<Rightarrow> tensor \<Rightarrow> tensor \<times> tensor \<times> tensor" where
  "encoder rt w mode random_normal encoder_inputs =
     (let x = run_layers rt w mode ''encoder'' 0 encoder_layers encoder_inputs;
          z_mean = apply_layer rt w mode ''encoder'' 6 z_mean_layer x;
          z_log_var = apply_layer rt w mode ''encoder'' 7 z_log_var_layer x;
          z = Sampling_call random_normal (z_mean, z_log_var)
      in (z_mean, z_log_var, z))"

definition latent_input_shape :: "nat list" where
  "latent_input_shape = [latent_dim]"

definition decoder_layers :: "layer list" where
  "decoder_layers =
     [Dense (15 * 15 * 128) Relu,
      Reshape [15, 15, 128],
      Conv2DTranspose 64 3 Relu 2 Same,
      BatchNormalization,
      Dropout 0.5,
      Conv2DTranspose 32 3 Relu 2 Same,
      Conv2DTranspose 3 3 Tanh 1 Same]"

definition decoder :: "('w, 'g, 'o) runtime \<Rightarrow> 'w \<Rightarrow> invocation \<Rightarrow> tensor \<Rightarrow> tensor" where
  "decoder rt w mode latent_inputs = run_layers rt w mode ''decoder'' 0 decoder_layers latent_inputs"

section \<open>The Mean metric\<close>

text \<open>
  \<^verbatim>\<open>keras.metrics.Mean\<close>: a running total and a count; \<open>update_state\<close> without sample
  weights adds the value with weight 1, and \<open>result\<close> is their quotient, 0 when nothing
  has been added (Keras divides with \<open>divide_no_nan\<close>).
\<close>

record Mean =
  mean_total :: real
  mean_count :: real

definition new_Mean :: Mean where
  "new_Mean = \<lparr>mean_total = 0, mean_count = 0\<rparr>"

definition update_state :: "real \<Rightarrow> Mean \<Rightarrow> Mean" where
  "update_state v m = m\<lparr>mean_total := mean_total m + v, mean_count := mean_count m + 1\<rparr>"

definition result :: "Mean \<Rightarrow> real" where
  "result m = mean_total m / mean_count m"

section \<open>Float32 values\<close>

text \<open>
  The sections above compute with real numbers. Two statements about ranges need more: a
  float32 value is a number, an infinity or NaN, and \<open>tanh\<close>, \<open>relu\<close> and \<open>np.clip\<close>
  return NaN on NaN. The decoder is therefore given a second time, on tensors of such
  values, with the computation of each layer before its activation again a parameter;
  the generation loop, where the script reads the numbers the decoder predicts, uses it.
  Rounding is not modelled: a number is a real.
\<close>

datatype f32 = Num real | PosInf | NegInf | NaN

fun activation_f32 :: "activation \<Rightarrow> f32 \<Rightarrow> f32" where
  "activation_f32 Linear v = v"
| "activation_f32 Relu (Num x) = Num (max 0 x)"
| "activation_f32 Relu PosInf = PosInf"
| "activation_f32 Relu NegInf = Num 0"
| "activation_f32 Relu NaN = NaN"
| "activation_f32 Tanh (Num x) = Num (tanh x)"
| "activation_f32 Tanh PosInf = Num 1"
| "activation_f32 Tanh NegInf = Num (- 1)"
| "activation_f32 Tanh NaN = NaN"

type_synonym 'w layer_op_f32 =
  "'w \<Rightarrow> invocation \<Rightarrow> string \<Rightarrow> nat \<Rightarrow> layer \<Rightarrow> f32 list list \<Rightarrow> f32 list list"

definition apply_layer_f32 ::
  "'w layer_op_f32 \<Rightarrow> 'w \<Rightarrow> invocation \<Rightarrow> string \<Rightarrow> nat \<Rightarrow> layer \<Rightarrow> f32 list list \<Rightarrow> f32 list list" where
  "apply_layer_f32 lop w mode m i l x =
     map (map (activation_f32 (layer_activation l))) (lop w mode m i l x)"

fun run_layers_f32 ::
  "'w layer_op_f32 \<Rightarrow> 'w \<Rightarrow> invocation \<Rightarrow> string \<Rightarrow> nat \<Rightarrow> layer list \<Rightarrow> f32 list list \<Rightarrow> f32 list list" where
  "run_layers_f32 lop w mode m i [] x = x"
| "run_layers_f32 lop w mode m i (l # ls) x =
     run_layers_f32 lop w mode m (Suc i) ls (apply_layer_f32 lop w mode m i l x)"

definition decoder_f32 :: "'w layer_op_f32 \<Rightarrow> 'w \<Rightarrow> invocation \<Rightarrow> f32 list list \<Rightarrow> f32 list list" where
  "decoder_f32 lop w mode latent_inputs =
     run_layers_f32 lop w mode ''decoder'' 0 decoder_layers latent_inputs"

text \<open>A value is between two bounds when it is a number between them.\<close>

fun f32_between :: "real \<Rightarrow> real \<Rightarrow> f32 \<Rightarrow> bool" where
  "f32_between lo hi (Num x) = (lo \<le> x \<and> x \<le> hi)"
| "f32_between lo hi v = False"

section \<open>The calls the script makes\<close>

text \<open>
  The script is a sequence of calls into its libraries. Each statement of the model that
  stands for such a call appends the call to a trace, in the order of execution.
\<close>

datatype event =
    NpLoad string
  | VAEInit
  | Compile optimizer_spec
  | FitCall nat nat
  | EpochBegin nat
  | EncoderCall tensor
  | DecoderCall tensor
  | BinaryCrossentropy tensor tensor
  | TapeGradient real
  | ApplyGradients
  | UpdateState string real
  | NpRandomNormal real real nat
  | DecoderPredict tensor
  | Imshow nat "f32 list list list"
  | PltShow

section \<open>The VAE class\<close>

text \<open>
  A \<open>VAE\<close> holds the two models it is given. Its mutable part, once compiled, is the
  state below: the trainable weights of both models, the optimizer, and the three
  trackers created in \<open>__init__\<close>.
\<close>

record 'w VAE =
  self_encoder :: "'w \<Rightarrow> invocation \<Rightarrow> noise \<Rightarrow> tensor \<Rightarrow> tensor \<times> tensor \<times> tensor"
  self_decoder :: "'w \<Rightarrow> invocation \<Rightarrow> tensor \<Rightarrow> tensor"

record ('w, 'o) vae_state =
  trainable_weights :: 'w
  optimizer :: 'o
  total_loss_tracker :: Mean
  reconstruction_loss_tracker :: Mean
  kl_loss_tracker :: Mean
  calls :: "event list"

definition log_call :: "event \<Rightarrow> ('w, 'o) vae_state \<Rightarrow> ('w, 'o) vae_state" where
  "log_call e st = st\<lparr>calls := calls st @ [e]\<rparr>"

text \<open>
  The block under \<^verbatim>\<open>tf.GradientTape\<close> in \<open>train_step\<close>, as a function of the weights:
  this is the computation the tape records and differentiates.
\<close>

record forward_pass =
  fwd_z_mean :: tensor
  fwd_z_log_var :: tensor
  fwd_z :: tensor
  fwd_reconstruction :: tensor
  fwd_reconstruction_loss :: real
  fwd_kl_loss :: real
  fwd_total_loss :: real

definition tape_block ::
  "('w, 'g, 'o) runtime \<Rightarrow> 'w VAE \<Rightarrow> noise \<Rightarrow> tensor \<Rightarrow> 'w \<Rightarrow> forward_pass" where
  "tape_block rt vae random_normal data w =
     (let (z_mean, z_log_var, z) = self_encoder vae w Call random_normal data;
          reconstruction = self_decoder vae w Call z;
          reconstruction_loss =
            reduce_mean (reduce_sum_axes_1_2 (binary_crossentropy rt data reconstruction));
          kl_loss = s_mul (- 0.5) (t_sub (t_sub (s_add 1 z_log_var) (t_square z_mean)) (t_exp z_log_var));
          kl_loss = reduce_mean (reduce_sum_axis_1 kl_loss);
          total_loss = reconstruction_loss + kl_loss
      in \<lparr>fwd_z_mean = z_mean, fwd_z_log_var = z_log_var, fwd_z = z,
          fwd_reconstruction = reconstruction,
          fwd_reconstruction_loss = reconstruction_loss,
          fwd_kl_loss = kl_loss, fwd_total_loss = total_loss\<rparr>)"

text \<open>
  \<open>VAE.train_step\<close>. \<open>random_normal\<close> is the generator as it stands when the step runs.
  The result is the dictionary the method returns, with the new state.
\<close>

definition train_step ::
  "('w, 'g, 'o) runtime \<Rightarrow> 'w VAE \<Rightarrow> noise \<Rightarrow> tensor \<Rightarrow> ('w, 'o) vae_state
     \<Rightarrow> (string \<times> real) list \<times> ('w, 'o) vae_state" where
  "train_step rt vae random_normal data st =
     (let w = trainable_weights st;
          fwd = tape_block rt vae random_normal data w;
          st = log_call (EncoderCall data) st;
          st = log_call (DecoderCall (fwd_z fwd)) st;
          st = log_call (BinaryCrossentropy data (fwd_reconstruction fwd)) st;
          total_loss = fwd_total_loss fwd;
          grads = tape_gradient rt
                    (\<lambda>w'. fwd_total_loss (tape_block rt vae random_normal data w')) w;
          st = log_call (TapeGradient total_loss) st;
          (opt', w') = apply_gradients rt (optimizer st) grads w;
          st = log_call ApplyGradients (st\<lparr>optimizer := opt', trainable_weights := w'\<rparr>);
          st = log_call (UpdateState ''total_loss'' total_loss)
                 (st\<lparr>total_loss_tracker := update_state total_loss (total_loss_tracker st)\<rparr>);
          st = log_call (UpdateState ''reconstruction_loss'' (fwd_reconstruction_loss fwd))
                 (st\<lparr>reconstruction_loss_tracker :=
                       update_state (fwd_reconstruction_loss fwd) (reconstruction_loss_tracker st)\<rparr>);
          st = log_call (UpdateState ''kl_loss'' (fwd_kl_loss fwd))
                 (st\<lparr>kl_loss_tracker := update_state (fwd_kl_loss fwd) (kl_loss_tracker st)\<rparr>)
      in ([(''loss'', result (total_loss_tracker st)),
           (''reconstruction_loss'', result (reconstruction_loss_tracker st)),
           (''kl_loss'', result (kl_loss_tracker st))], st))"

section \<open>Training\<close>

text \<open>
  \<open>Model.fit\<close> of Keras, as far as the script depends on it: it raises \<open>ValueError\<close> on an
  empty dataset before the first epoch; for each epoch it resets the metrics of the model
  (the three trackers that \<open>VAE.metrics\<close> lists), shuffles the data, cuts it into
  consecutive batches of \<open>batch_size\<close> examples, the last one possibly shorter, and calls
  \<open>train_step\<close> on each batch. \<open>rnd epoch k\<close> is the noise generator during step \<open>k\<close> of
  the epoch.
\<close>

datatype error = IndexError | ValueError

function batches :: "nat \<Rightarrow> 'a list \<Rightarrow> 'a list list" where
  "batches n xs = (if n = 0 \<or> xs = [] then [] else take n xs # batches n (drop n xs))"
  by pat_completeness auto
termination
  by (relation "measure (\<lambda>(n, xs). length xs)") auto

declare batches.simps [simp del]

definition reset_metrics :: "('w, 'o) vae_state \<Rightarrow> ('w, 'o) vae_state" where
  "reset_metrics st =
     st\<lparr>total_loss_tracker := new_Mean,
        reconstruction_loss_tracker := new_Mean,
        kl_loss_tracker := new_Mean\<rparr>"

definition run_epoch ::
  "('w, 'g, 'o) runtime \<Rightarrow> 'w VAE \<Rightarrow> (nat \<Rightarrow> noise) \<Rightarrow> tensor list
     \<Rightarrow> ('w, 'o) vae_state \<Rightarrow> ('w, 'o) vae_state" where
  "run_epoch rt vae rnd bs st =
     fold (\<lambda>(k, batch) st. snd (train_step rt vae (rnd k) batch st)) (enumerate 0 bs) st"

definition fit ::
  "('w, 'g, 'o) runtime \<Rightarrow> 'w VAE \<Rightarrow> (nat \<Rightarrow> nat \<Rightarrow> noise) \<Rightarrow> tensor \<Rightarrow> nat \<Rightarrow> nat
     \<Rightarrow> ('w, 'o) vae_state \<Rightarrow> error + ('w, 'o) vae_state" where
  "fit rt vae rnd x epochs batch_size st =
     (if x = [] then Inl ValueError
      else Inr (fold (\<lambda>epoch st.
             run_epoch rt vae (rnd epoch) (batches batch_size (shuffle rt epoch x))
               (log_call (EpochBegin epoch) (reset_metrics st)))
          [0..<epochs] (log_call (FitCall epochs batch_size) st)))"

text \<open>
  The training part of the script, from \<open>np.load\<close> to \<open>vae.fit\<close>. Its inputs are the
  array read from the file, given by the shape of one example and the flattened examples,
  and the weights the two models were built with. The encoder is built on
  \<open>keras.Input(shape=(60, 60, 3))\<close>: when the examples have another shape Keras raises
  \<open>ValueError\<close> as the first batch reaches the encoder, and no step is completed.
\<close>

definition dataset_path :: string where
  "dataset_path = ''/content/drive/MyDrive/anime_faces.npy''"

definition script_vae :: "('w, 'g, 'o) runtime \<Rightarrow> 'w VAE" where
  "script_vae rt = \<lparr>self_encoder = encoder rt, self_decoder = decoder rt\<rparr>"

definition compile :: "('w, 'g, 'o) runtime \<Rightarrow> optimizer_spec \<Rightarrow> 'w \<Rightarrow> event list \<Rightarrow> ('w, 'o) vae_state" where
  "compile rt spec w trace =
     \<lparr>trainable_weights = w, optimizer = new_optimizer rt spec,
      total_loss_tracker = new_Mean, reconstruction_loss_tracker = new_Mean,
      kl_loss_tracker = new_Mean, calls = trace @ [Compile spec]\<rparr>"

definition training ::
  "('w, 'g, 'o) runtime \<Rightarrow> 'w \<Rightarrow> (nat \<Rightarrow> nat \<Rightarrow> noise) \<Rightarrow> nat list \<Rightarrow> tensor
     \<Rightarrow> error + ('w, 'o) vae_state" where
  "training rt w0 rnd loaded_shape loaded =
     (let x_train = loaded;
          trace = [NpLoad dataset_path];
          x_train = take 15000 x_train;
          x_train = map (map (\<lambda>v. v / 255)) x_train;
          vae = script_vae rt;
          trace = trace @ [VAEInit];
          st = compile rt (Adam 0.002) w0 trace
      in if loaded_shape \<noteq> encoder_input_shape then Inl ValueError
         else fit rt vae rnd x_train 1000 64 st)"

section \<open>Generation\<close>

function chunks :: "nat \<Rightarrow> 'a list \<Rightarrow> 'a list list" where
  "chunks n xs = (if n = 0 \<or> xs = [] then [] else take n xs # chunks n (drop n xs))"
  by pat_completeness auto
termination
  by (relation "measure (\<lambda>(n, xs). length xs)") auto

declare chunks.simps [simp del]

text \<open>
  \<open>ndarray.reshape(h, w, c)\<close> of a flat array, for positive \<open>h\<close>, \<open>w\<close>, \<open>c\<close>: rows of
  pixels of channels, in row-major order; NumPy raises \<open>ValueError\<close> when the sizes differ.
\<close>

definition reshape :: "'a list \<Rightarrow> nat \<times> nat \<times> nat \<Rightarrow> error + 'a list list list" where
  "reshape a shp =
     (case shp of (h, w, c) \<Rightarrow>
        if length a = h * w * c then Inr (chunks w (chunks c a)) else Inl ValueError)"

text \<open>
  \<open>np.clip(a, a_min, a_max)\<close> is \<open>minimum(a_max, maximum(a, a_min))\<close> on every entry, and
  both propagate NaN: a NaN entry stays NaN.
\<close>

fun clip :: "f32 \<Rightarrow> real \<Rightarrow> real \<Rightarrow> f32" where
  "clip (Num x) a_min a_max = Num (min a_max (max x a_min))"
| "clip PosInf a_min a_max = Num a_max"
| "clip NegInf a_min a_max = Num (min a_max a_min)"
| "clip NaN a_min a_max = NaN"

definition np_clip :: "f32 list list list \<Rightarrow> real \<Rightarrow> real \<Rightarrow> f32 list list list" where
  "np_clip img a_min a_max = map (map (map (\<lambda>v. clip v a_min a_max))) img"

text \<open>\<open>cv2.cvtColor(image, cv2.COLOR_BGR2RGB)\<close> reverses the three channels of every pixel.\<close>

definition cvtColor_BGR2RGB :: "'a list list list \<Rightarrow> 'a list list list" where
  "cvtColor_BGR2RGB img = map (map rev) img"

text \<open>
  One turn of the generation loop: \<open>np_random_normal i\<close> is the generator of NumPy at turn
  \<open>i\<close>, taking \<open>(loc, scale, size)\<close>; \<open>vae.decoder\<close> is the decoder the script built, and
  \<open>predict\<close> runs it in float32 on the numbers drawn. \<open>x_decoded[0]\<close> raises \<open>IndexError\<close>
  on an empty prediction. The figure, subplot and axis calls of matplotlib carry no data;
  the subplot position \<open>i + 1\<close> is kept with the image shown.
\<close>

definition generate_image ::
  "'w layer_op_f32 \<Rightarrow> 'w \<Rightarrow> (nat \<Rightarrow> real \<times> real \<times> nat \<Rightarrow> real list) \<Rightarrow> nat \<Rightarrow> event list
     \<Rightarrow> error + event list" where
  "generate_image lop w np_random_normal i trace =
     (let random_nums = np_random_normal i (0, 1, latent_dim);
          trace = trace @ [NpRandomNormal 0 1 latent_dim];
          z_sample = [random_nums];
          x_decoded = decoder_f32 lop w Predict (map (map Num) z_sample);
          trace = trace @ [DecoderPredict z_sample]
      in case x_decoded of
           [] \<Rightarrow> Inl IndexError
         | x0 # _ \<Rightarrow>
             (case reshape x0 (60, 60, 3) of
                Inl e \<Rightarrow> Inl e
              | Inr img \<Rightarrow>
                  (let img = np_clip img 0 1
                   in Inr (trace @ [Imshow (i + 1) (cvtColor_BGR2RGB img)]))))"

fun for_range :: "(nat \<Rightarrow> 's \<Rightarrow> error + 's) \<Rightarrow> nat list \<Rightarrow> 's \<Rightarrow> error + 's" where
  "for_range body [] s = Inr s"
| "for_range body (i # rest) s =
     (case body i s of Inl e \<Rightarrow> Inl e | Inr s' \<Rightarrow> for_range body rest s')"

definition generation ::
  "'w layer_op_f32 \<Rightarrow> 'w \<Rightarrow> (nat \<Rightarrow> real \<times> real \<times> nat \<Rightarrow> real list) \<Rightarrow> event list
     \<Rightarrow> error + event list" where
  "generation lop w np_random_normal trace =
     (case for_range (generate_image lop w np_random_normal) [0..<12] trace of
        Inl e \<Rightarrow> Inl e
      | Inr trace' \<Rightarrow> Inr (trace' @ [PltShow]))"

section \<open>Notions used in the statements\<close>

text \<open>
  The tensor of line 42 of \<open>train_step\<close>, before the two reductions of line 43, on its
  own: \<open>tape_block\<close> computes it in place.
\<close>

definition kl_tensor :: "tensor \<Rightarrow> tensor \<Rightarrow> tensor" where
  "kl_tensor z_mean z_log_var =
     s_mul (- 0.5) (t_sub (t_sub (s_add 1 z_log_var) (t_square z_mean)) (t_exp z_log_var))"

text \<open>
  The textbook closed form of the Kullback-Leibler divergence of a normal distribution of
  mean \<open>mu\<close> and variance \<open>var\<close> from the standard normal one, for one coordinate. It
  is written from the formula, not from the script, to be compared with what the script
  computes.
\<close>

definition kl_closed_form :: "real \<Rightarrow> real \<Rightarrow> real" where
  "kl_closed_form mu var = (var + mu\<^sup>2 - 1 - ln var) / 2"

text \<open>
  Lines 45 and 46 of \<open>train_step\<close> on their own: what one step does to the optimizer and
  the weights, given the batch and the noise.
\<close>

definition step_update ::
  "('w, 'g, 'o) runtime \<Rightarrow> 'w VAE \<Rightarrow> noise \<Rightarrow> tensor \<Rightarrow> 'o \<times> 'w \<Rightarrow> 'o \<times> 'w" where
  "step_update rt vae random_normal data ow =
     apply_gradients rt (fst ow)
       (tape_gradient rt (\<lambda>w'. fwd_total_loss (tape_block rt vae random_normal data w')) (snd ow))
       (snd ow)"

text \<open>\<open>has_shape\<close> for tensors of any entries.\<close>

definition batch_shape :: "nat \<Rightarrow> nat \<Rightarrow> 'a list list \<Rightarrow> bool" where
  "batch_shape b d t \<longleftrightarrow> length t = b \<and> list_all (\<lambda>r. length r = d) t"

text \<open>
  The runtime keeps the shapes of a model when each of its layers, given a batch of
  examples of the shape the layer receives, returns a batch of as many examples of the
  shape that Keras announces for the layer. This is what the layers of Keras do; it is a
  hypothesis on the parameter wherever the size of a tensor matters.
\<close>

fun keeps_shapes ::
  "('w \<Rightarrow> invocation \<Rightarrow> string \<Rightarrow> nat \<Rightarrow> layer \<Rightarrow> 'a list list \<Rightarrow> 'a list list)
     \<Rightarrow> 'w \<Rightarrow> invocation \<Rightarrow> string \<Rightarrow> nat \<Rightarrow> layer list \<Rightarrow> nat list \<Rightarrow> bool" where
  "keeps_shapes lop w mode m i [] sh = True"
| "keeps_shapes lop w mode m i (l # ls) sh =
     (case output_shape l sh of
        None \<Rightarrow> False
      | Some sh' \<Rightarrow>
          (\<forall>b x. batch_shape b (prod_list sh) x \<longrightarrow>
                 batch_shape b (prod_list sh') (lop w mode m i l x)) \<and>
          keeps_shapes lop w mode m (Suc i) ls sh')"

text \<open>
  Readers of the log: the epochs begun, the images shown with their subplot positions,
  and the inputs of the calls of the encoder.
\<close>

fun epochs_begun :: "event list \<Rightarrow> nat list" where
  "epochs_begun [] = []"
| "epochs_begun (EpochBegin n # es) = n # epochs_begun es"
| "epochs_begun (e # es) = epochs_begun es"

fun images_shown :: "event list \<Rightarrow> (nat \<times> f32 list list list) list" where
  "images_shown [] = []"
| "images_shown (Imshow p img # es) = (p, img) # images_shown es"
| "images_shown (e # es) = images_shown es"

fun encoder_calls :: "event list \<Rightarrow> tensor list" where
  "encoder_calls [] = []"
| "encoder_calls (EncoderCall x # es) = x # encoder_calls es"
| "encoder_calls (e # es) = encoder_calls es"

section \<open>A small runtime\<close>

text \<open>
  A runtime, a model and a state on which the functions above can be evaluated. Every
  layer returns, for each example, as many entries as the layer of the decoder at its
  position has, all \<open>- 1\<close> before the activation; the cross-entropy is the constant 2.
  In \<open>demo_vae\<close> the encoder returns mean 2 and log-variance 0; in \<open>data_vae\<close> it returns
  the batch itself as the mean. \<open>nan_lop\<close> is the float32 runtime whose layers return NaN.
\<close>

definition demo_sizes :: "nat \<Rightarrow> nat" where
  "demo_sizes i = (if i < 7 then [28800, 28800, 57600, 57600, 57600, 115200, 10800] ! i else 1)"

definition demo_runtime :: "(unit, unit, unit) runtime" where
  "demo_runtime =
     \<lparr>layer_op = (\<lambda>w mode m i l x. map (\<lambda>r. replicate (demo_sizes i) (- 1)) x),
      binary_crossentropy = (\<lambda>y_true y_pred. [[[2]]]),
      tape_gradient = (\<lambda>f w. ()),
      apply_gradients = (\<lambda>opt g w. (opt, w)),
      new_optimizer = (\<lambda>spec. ()),
      shuffle = (\<lambda>epoch x. x)\<rparr>"

definition demo_vae :: "unit VAE" where
  "demo_vae =
     \<lparr>self_encoder = (\<lambda>w mode rnd x. ([[2]], [[0]], [[5]])),
      self_decoder = (\<lambda>w mode z. [replicate (60 * 60 * 3) 2])\<rparr>"

definition data_vae :: "unit VAE" where
  "data_vae =
     \<lparr>self_encoder = (\<lambda>w mode rnd x. (x, [[0]], [[5]])),
      self_decoder = (\<lambda>w mode z. z)\<rparr>"

definition demo_state :: "(unit, unit) vae_state" where
  "demo_state = compile demo_runtime (Adam 0.002) () []"

definition no_noise :: noise where
  "no_noise = (\<lambda>s. [])"

definition demo_lop :: "unit layer_op_f32" where
  "demo_lop = (\<lambda>w mode m i l x. map (\<lambda>r. replicate (demo_sizes i) (Num (- 1))) x)"

definition nan_lop :: "unit layer_op_f32" where
  "nan_lop = (\<lambda>w mode m i l x. map (\<lambda>r. replicate (demo_sizes i) NaN) x)"

definition zero_draws :: "nat \<Rightarrow> real \<times> real \<times> nat \<Rightarrow> real list" where
  "zero_draws = (\<lambda>i p. replicate (snd (snd p)) 0)"

section \<open>Shapes and entries of tensors\<close>

lemma has_shape_nth: "has_shape b d t \<Longrightarrow> i < b \<Longrightarrow> length (t ! i) = d"
  by (auto simp: has_shape_def list_all_length)

lemma has_shape_length: "has_shape b d t \<Longrightarrow> length t = b"
  by (simp add: has_shape_def)

lemma has_shape_first_row:
  "has_shape b d t \<Longrightarrow> 0 < b \<Longrightarrow> (case t of [] \<Rightarrow> 0 | r # _ \<Rightarrow> length r) = d"
  by (cases t) (auto simp: has_shape_def)

lemma has_shape_map [simp]: "has_shape b d (map (map f) t) = has_shape b d t"
  by (simp add: has_shape_def list_all_length)

lemma has_shape_map2:
  "has_shape b d s \<Longrightarrow> has_shape b d t \<Longrightarrow> has_shape b d (map2 (map2 f) s t)"
  by (auto simp: has_shape_def list_all_length)

lemma nth_map2_map2:
  "has_shape b d s \<Longrightarrow> has_shape b d t \<Longrightarrow> i < b \<Longrightarrow> j < d \<Longrightarrow>
     map2 (map2 f) s t ! i ! j = f (s ! i ! j) (t ! i ! j)"
  by (simp add: has_shape_def list_all_length)

lemma nth_map_map:
  "has_shape b d t \<Longrightarrow> i < b \<Longrightarrow> j < d \<Longrightarrow> map (map f) t ! i ! j = f (t ! i ! j)"
  by (simp add: has_shape_def list_all_length)

lemma Sampling_call_entries:
  assumes zm: "has_shape b d z_mean" and zv: "has_shape b d z_log_var"
    and eps: "has_shape b d (random_normal (b, d))"
  shows "has_shape b d (Sampling_call random_normal (z_mean, z_log_var)) \<and>
    (\<forall>i<b. \<forall>j<d. Sampling_call random_normal (z_mean, z_log_var) ! i ! j =
        z_mean ! i ! j + exp (0.5 * z_log_var ! i ! j) * random_normal (b, d) ! i ! j)"
proof (cases "b = 0")
  case True
  with zm show ?thesis
    by (simp add: has_shape_def Sampling_call_def t_add_def)
next
  case False
  then have dim: "(case z_mean of [] \<Rightarrow> 0 | r # _ \<Rightarrow> length r) = d"
    using has_shape_first_row [OF zm] by simp
  have call: "Sampling_call random_normal (z_mean, z_log_var) =
      t_add z_mean (t_mul (t_exp (s_mul 0.5 z_log_var)) (random_normal (b, d)))"
    using dim has_shape_length [OF zm] by (simp add: Sampling_call_def)
  have sd: "has_shape b d (t_exp (s_mul 0.5 z_log_var))"
    using zv by (simp add: t_exp_def s_mul_def)
  have prod: "has_shape b d (t_mul (t_exp (s_mul 0.5 z_log_var)) (random_normal (b, d)))"
    unfolding t_mul_def by (rule has_shape_map2 [OF sd eps])
  have shape: "has_shape b d (Sampling_call random_normal (z_mean, z_log_var))"
    unfolding call t_add_def by (rule has_shape_map2 [OF zm prod])
  have entry: "Sampling_call random_normal (z_mean, z_log_var) ! i ! j =
        z_mean ! i ! j + exp (0.5 * z_log_var ! i ! j) * random_normal (b, d) ! i ! j"
    if "i < b" "j < d" for i j
  proof -
    have "t_exp (s_mul 0.5 z_log_var) ! i ! j = exp (0.5 * z_log_var ! i ! j)"
      using that zv by (simp add: t_exp_def s_mul_def nth_map_map)
    moreover have "t_mul (t_exp (s_mul 0.5 z_log_var)) (random_normal (b, d)) ! i ! j =
        t_exp (s_mul 0.5 z_log_var) ! i ! j * random_normal (b, d) ! i ! j"
      unfolding t_mul_def by (rule nth_map2_map2 [OF sd eps that])
    moreover have "t_add z_mean (t_mul (t_exp (s_mul 0.5 z_log_var)) (random_normal (b, d))) ! i ! j =
        z_mean ! i ! j + t_mul (t_exp (s_mul 0.5 z_log_var)) (random_normal (b, d)) ! i ! j"
      unfolding t_add_def by (rule nth_map2_map2 [OF zm prod that])
    ultimately show ?thesis by (simp add: call)
  qed
  from shape entry show ?thesis by blast
qed

lemma exp_half_squared: "(exp (0.5 * v)) ^ 2 = exp (v::real)"
  by (simp add: exp_double [symmetric])

section \<open>The reparameterization trick\<close>

text \<open>
  Claim C2. For \<open>z_mean\<close> and \<open>z_log_var\<close> of one shape \<open>(b, d)\<close>, the sampling layer
  asks the generator for noise of that shape \<open>(b, d)\<close> and returns, entry by entry,
  \<open>z_mean + exp (0.5 * z_log_var) * epsilon\<close>, a tensor of the same shape. The factor on
  the noise is a standard deviation whose square, the variance, is \<open>exp z_log_var\<close>.
\<close>

theorem Sampling_call_reparameterization:
  assumes "has_shape b d z_mean" and "has_shape b d z_log_var"
    and "has_shape b d (random_normal (b, d))"
  shows "has_shape b d (Sampling_call random_normal (z_mean, z_log_var)) \<and>
    (\<forall>i<b. \<forall>j<d. Sampling_call random_normal (z_mean, z_log_var) ! i ! j =
        z_mean ! i ! j + exp (0.5 * z_log_var ! i ! j) * random_normal (b, d) ! i ! j
      \<and> (exp (0.5 * z_log_var ! i ! j)) ^ 2 = exp (z_log_var ! i ! j))"
  using Sampling_call_entries [of b d z_mean z_log_var random_normal] assms exp_half_squared by simp

theorem Sampling_call_reparameterization_witness:
  "has_shape 1 2 [[1, 2]] \<and> has_shape 1 2 [[0, 0]] \<and> has_shape 1 2 ((\<lambda>s. [[3, 4]]) (1::nat, 2::nat)) \<and>
   Sampling_call (\<lambda>s. [[3, 4]]) ([[1, 2]], [[0, 0]]) ! 0 ! 1 = 6"
proof -
  have h1: "has_shape 1 2 [[1, 2]]" by (simp add: has_shape_def)
  have h2: "has_shape 1 2 [[0, 0]]" by (simp add: has_shape_def)
  have h3: "has_shape 1 2 ((\<lambda>s. [[3, 4]]) (1::nat, 2::nat))" by (simp add: has_shape_def)
  from Sampling_call_reparameterization [of 1 2 "[[1, 2]]" "[[0, 0]]" "\<lambda>s. [[3, 4]]"] h1 h2 h3
  have "Sampling_call (\<lambda>s. [[3, 4]]) ([[1, 2]], [[0, 0]]) ! 0 ! 1 =
      [[1, 2]] ! 0 ! 1 + exp (0.5 * [[0, 0]] ! 0 ! 1) * [[3, 4]] ! 0 ! 1"
    by simp
  then show ?thesis using h1 h2 h3 by simp
qed

section \<open>The forward pass and the training step\<close>

lemma sum_list_rows:
  assumes "has_shape b d t"
  shows "sum_list (map sum_list t) = (\<Sum>i<b. \<Sum>j<d. t ! i ! j)"
proof -
  have "sum_list (map sum_list t) = (\<Sum>i<b. sum_list (t ! i))"
    using assms by (simp add: sum_list_sum_nth has_shape_def atLeast0LessThan)
  also have "\<dots> = (\<Sum>i<b. \<Sum>j<d. t ! i ! j)"
  proof (rule sum.cong)
    fix i assume "i \<in> {..<b}"
    then have "length (t ! i) = d" using has_shape_nth [OF assms] by simp
    then show "sum_list (t ! i) = (\<Sum>j<d. t ! i ! j)"
      by (simp add: sum_list_sum_nth atLeast0LessThan)
  qed simp
  finally show ?thesis .
qed

lemma kl_tensor_entries:
  assumes zm: "has_shape b d z_mean" and zv: "has_shape b d z_log_var"
  shows "has_shape b d (kl_tensor z_mean z_log_var)"
    and "i < b \<Longrightarrow> j < d \<Longrightarrow> kl_tensor z_mean z_log_var ! i ! j =
          - 0.5 * (1 + z_log_var ! i ! j - (z_mean ! i ! j)\<^sup>2 - exp (z_log_var ! i ! j))"
proof -
  have a: "has_shape b d (s_add 1 z_log_var)" using zv by (simp add: s_add_def)
  have s: "has_shape b d (t_square z_mean)" using zm by (simp add: t_square_def)
  have e: "has_shape b d (t_exp z_log_var)" using zv by (simp add: t_exp_def)
  have d1: "has_shape b d (t_sub (s_add 1 z_log_var) (t_square z_mean))"
    unfolding t_sub_def by (rule has_shape_map2 [OF a s])
  have d2: "has_shape b d (t_sub (t_sub (s_add 1 z_log_var) (t_square z_mean)) (t_exp z_log_var))"
    unfolding t_sub_def by (rule has_shape_map2 [OF d1 [unfolded t_sub_def] e])
  show "has_shape b d (kl_tensor z_mean z_log_var)"
    using d2 by (simp add: kl_tensor_def s_mul_def)
  assume ij: "i < b" "j < d"
  have "s_add 1 z_log_var ! i ! j = 1 + z_log_var ! i ! j"
    unfolding s_add_def by (rule nth_map_map [OF zv ij])
  moreover have "t_square z_mean ! i ! j = z_mean ! i ! j * z_mean ! i ! j"
    unfolding t_square_def by (rule nth_map_map [OF zm ij])
  moreover have "t_exp z_log_var ! i ! j = exp (z_log_var ! i ! j)"
    unfolding t_exp_def by (rule nth_map_map [OF zv ij])
  moreover have "t_sub (s_add 1 z_log_var) (t_square z_mean) ! i ! j =
      s_add 1 z_log_var ! i ! j - t_square z_mean ! i ! j"
    unfolding t_sub_def by (rule nth_map2_map2 [OF a s ij])
  moreover have "t_sub (t_sub (s_add 1 z_log_var) (t_square z_mean)) (t_exp z_log_var) ! i ! j =
      t_sub (s_add 1 z_log_var) (t_square z_mean) ! i ! j - t_exp z_log_var ! i ! j"
    unfolding t_sub_def by (rule nth_map2_map2 [OF d1 [unfolded t_sub_def] e ij])
  moreover have "kl_tensor z_mean z_log_var ! i ! j =
      - 0.5 * t_sub (t_sub (s_add 1 z_log_var) (t_square z_mean)) (t_exp z_log_var) ! i ! j"
    unfolding kl_tensor_def s_mul_def by (rule nth_map_map [OF d2 ij])
  ultimately show "kl_tensor z_mean z_log_var ! i ! j =
          - 0.5 * (1 + z_log_var ! i ! j - (z_mean ! i ! j)\<^sup>2 - exp (z_log_var ! i ! j))"
    by (simp add: power2_eq_square)
qed

lemma kl_mean_formula:
  assumes zm: "has_shape b d z_mean" and zv: "has_shape b d z_log_var"
  shows "reduce_mean (reduce_sum_axis_1 (kl_tensor z_mean z_log_var)) =
      (\<Sum>i<b. \<Sum>j<d. - 0.5 * (1 + z_log_var ! i ! j - (z_mean ! i ! j)\<^sup>2 - exp (z_log_var ! i ! j)))
        / real b"
proof -
  note sh = kl_tensor_entries(1) [OF zm zv]
  have "sum_list (map sum_list (kl_tensor z_mean z_log_var)) =
      (\<Sum>i<b. \<Sum>j<d. kl_tensor z_mean z_log_var ! i ! j)"
    by (rule sum_list_rows [OF sh])
  also have "\<dots> = (\<Sum>i<b. \<Sum>j<d. - 0.5 * (1 + z_log_var ! i ! j - (z_mean ! i ! j)\<^sup>2 - exp (z_log_var ! i ! j)))"
    by (intro sum.cong refl) (simp add: kl_tensor_entries(2) [OF zm zv])
  finally show ?thesis
    using has_shape_length [OF sh] by (simp add: reduce_mean_def reduce_sum_axis_1_def)
qed

lemma tape_block_fields:
  assumes "self_encoder vae w Call rnd data = (z_mean, z_log_var, z)"
  shows "fwd_z_mean (tape_block rt vae rnd data w) = z_mean"
    and "fwd_z_log_var (tape_block rt vae rnd data w) = z_log_var"
    and "fwd_z (tape_block rt vae rnd data w) = z"
    and "fwd_reconstruction (tape_block rt vae rnd data w) = self_decoder vae w Call z"
    and "fwd_reconstruction_loss (tape_block rt vae rnd data w) =
           reduce_mean (reduce_sum_axes_1_2 (binary_crossentropy rt data (self_decoder vae w Call z)))"
    and "fwd_kl_loss (tape_block rt vae rnd data w) =
           reduce_mean (reduce_sum_axis_1 (kl_tensor z_mean z_log_var))"
  using assms by (simp_all add: tape_block_def Let_def kl_tensor_def)

lemma tape_block_total:
  "fwd_total_loss (tape_block rt vae rnd data w) =
     fwd_reconstruction_loss (tape_block rt vae rnd data w) + fwd_kl_loss (tape_block rt vae rnd data w)"
  by (simp add: tape_block_def Let_def split: prod.split)

lemma train_step_calls:
  "calls (snd (train_step rt vae rnd data st)) =
     calls st @
     (let fwd = tape_block rt vae rnd data (trainable_weights st) in
      [EncoderCall data, DecoderCall (fwd_z fwd),
       BinaryCrossentropy data (fwd_reconstruction fwd),
       TapeGradient (fwd_total_loss fwd), ApplyGradients,
       UpdateState ''total_loss'' (fwd_total_loss fwd),
       UpdateState ''reconstruction_loss'' (fwd_reconstruction_loss fwd),
       UpdateState ''kl_loss'' (fwd_kl_loss fwd)])"
  by (simp add: train_step_def Let_def log_call_def split: prod.split)

lemma train_step_update:
  "(optimizer (snd (train_step rt vae rnd data st)),
    trainable_weights (snd (train_step rt vae rnd data st))) =
     apply_gradients rt (optimizer st)
       (tape_gradient rt (\<lambda>w'. fwd_total_loss (tape_block rt vae rnd data w')) (trainable_weights st))
       (trainable_weights st)"
  by (simp add: train_step_def Let_def log_call_def split: prod.split)

lemma train_step_trackers:
  "total_loss_tracker (snd (train_step rt vae rnd data st)) =
     update_state (fwd_total_loss (tape_block rt vae rnd data (trainable_weights st))) (total_loss_tracker st)"
  "reconstruction_loss_tracker (snd (train_step rt vae rnd data st)) =
     update_state (fwd_reconstruction_loss (tape_block rt vae rnd data (trainable_weights st)))
       (reconstruction_loss_tracker st)"
  "kl_loss_tracker (snd (train_step rt vae rnd data st)) =
     update_state (fwd_kl_loss (tape_block rt vae rnd data (trainable_weights st))) (kl_loss_tracker st)"
  by (simp_all add: train_step_def Let_def log_call_def split: prod.split)

lemma train_step_logs:
  "fst (train_step rt vae rnd data st) =
     [(''loss'', result (total_loss_tracker (snd (train_step rt vae rnd data st)))),
      (''reconstruction_loss'', result (reconstruction_loss_tracker (snd (train_step rt vae rnd data st)))),
      (''kl_loss'', result (kl_loss_tracker (snd (train_step rt vae rnd data st))))]"
  by (simp add: train_step_def Let_def log_call_def split: prod.split)

lemma demo_state_simps:
  "trainable_weights demo_state = ()" "calls demo_state = [Compile (Adam 0.002)]"
  "total_loss_tracker demo_state = new_Mean" "reconstruction_loss_tracker demo_state = new_Mean"
  "kl_loss_tracker demo_state = new_Mean"
  by (simp_all add: demo_state_def compile_def)

lemma demo_tape_block:
  "fwd_reconstruction_loss (tape_block demo_runtime demo_vae rnd [[0]] ()) = 2"
  "fwd_kl_loss (tape_block demo_runtime demo_vae rnd [[0]] ()) = 2"
  by (simp_all add: tape_block_def demo_vae_def demo_runtime_def Let_def reduce_mean_def
      reduce_sum_axes_1_2_def reduce_sum_axis_1_def s_mul_def s_add_def t_sub_def t_square_def t_exp_def)

text \<open>
  Claim C1. One call of \<open>train_step\<close> on a batch makes, in this order and nothing else:
  the call of the encoder on the batch, the call of the decoder on the sampled \<open>z\<close> the
  encoder returned, the binary cross-entropy of the batch and that reconstruction, the
  gradient of the total loss, one \<open>apply_gradients\<close>, and the three tracker updates. Among
  the calls the step adds there is exactly one \<open>apply_gradients\<close>, and the new optimizer
  state and weights are the result of that single application to the old ones.
\<close>

theorem train_step_one_gradient_update:
  "\<exists>z_mean z_log_var z reconstruction reconstruction_loss kl_loss.
     self_encoder vae (trainable_weights st) Call rnd data = (z_mean, z_log_var, z) \<and>
     reconstruction = self_decoder vae (trainable_weights st) Call z \<and>
     reconstruction_loss =
       reduce_mean (reduce_sum_axes_1_2 (binary_crossentropy rt data reconstruction)) \<and>
     kl_loss = reduce_mean (reduce_sum_axis_1 (kl_tensor z_mean z_log_var)) \<and>
     calls (snd (train_step rt vae rnd data st)) =
       calls st @
       [EncoderCall data, DecoderCall z, BinaryCrossentropy data reconstruction,
        TapeGradient (reconstruction_loss + kl_loss), ApplyGradients,
        UpdateState ''total_loss'' (reconstruction_loss + kl_loss),
        UpdateState ''reconstruction_loss'' reconstruction_loss,
        UpdateState ''kl_loss'' kl_loss] \<and>
     length (filter (\<lambda>e. e = ApplyGradients)
       (drop (length (calls st)) (calls (snd (train_step rt vae rnd data st))))) = 1 \<and>
     (optimizer (snd (train_step rt vae rnd data st)),
      trainable_weights (snd (train_step rt vae rnd data st))) =
       apply_gradients rt (optimizer st)
         (tape_gradient rt (\<lambda>w'. fwd_total_loss (tape_block rt vae rnd data w')) (trainable_weights st))
         (trainable_weights st)"
proof -
  obtain z_mean z_log_var z
    where enc: "self_encoder vae (trainable_weights st) Call rnd data = (z_mean, z_log_var, z)"
    by (cases "self_encoder vae (trainable_weights st) Call rnd data") auto
  let ?rec = "self_decoder vae (trainable_weights st) Call z"
  let ?rl = "reduce_mean (reduce_sum_axes_1_2 (binary_crossentropy rt data ?rec))"
  let ?kl = "reduce_mean (reduce_sum_axis_1 (kl_tensor z_mean z_log_var))"
  note f = tape_block_fields [OF enc, of rt]
  have tr: "calls (snd (train_step rt vae rnd data st)) =
       calls st @
       [EncoderCall data, DecoderCall z, BinaryCrossentropy data ?rec,
        TapeGradient (?rl + ?kl), ApplyGradients,
        UpdateState ''total_loss'' (?rl + ?kl),
        UpdateState ''reconstruction_loss'' ?rl,
        UpdateState ''kl_loss'' ?kl]"
    by (simp add: train_step_calls Let_def f(3,4,5,6) tape_block_total)
  have one: "length (filter (\<lambda>e. e = ApplyGradients)
       (drop (length (calls st)) (calls (snd (train_step rt vae rnd data st))))) = 1"
    by (simp add: tr)
  show ?thesis
    using enc tr one train_step_update [of rt vae rnd data st] by blast
qed

lemma kl_closed_form_exp:
  "- 0.5 * (1 + v - m\<^sup>2 - exp v) = kl_closed_form m (exp v)"
  by (simp add: kl_closed_form_def field_simps)

text \<open>
  Claim C8. When the encoder returns \<open>z_mean\<close> and \<open>z_log_var\<close> of shape \<open>(b, d)\<close> on a
  batch that is not empty, the KL term of \<open>train_step\<close>, which is the value of its last
  tracker update, is the mean over the \<open>b\<close> examples of the sum over the \<open>d\<close> latent
  coordinates of \<open>- 0.5 * (1 + z_log_var - z_mean\<^sup>2 - exp z_log_var)\<close>. Each summand is
  the closed form of the KL divergence from the standard normal distribution of the normal
  distribution of mean \<open>z_mean\<close> and variance \<open>exp z_log_var\<close>.
\<close>

theorem train_step_kl_loss:
  assumes "self_encoder vae (trainable_weights st) Call rnd data = (z_mean, z_log_var, z)"
    and "has_shape b d z_mean" and "has_shape b d z_log_var" and "0 < b"
  shows "fwd_kl_loss (tape_block rt vae rnd data (trainable_weights st)) =
      (\<Sum>i<b. \<Sum>j<d. - 0.5 * (1 + z_log_var ! i ! j - (z_mean ! i ! j)\<^sup>2 - exp (z_log_var ! i ! j)))
        / real b \<and>
    last (calls (snd (train_step rt vae rnd data st))) =
      UpdateState ''kl_loss''
        ((\<Sum>i<b. \<Sum>j<d. - 0.5 * (1 + z_log_var ! i ! j - (z_mean ! i ! j)\<^sup>2 - exp (z_log_var ! i ! j)))
           / real b) \<and>
    (\<Sum>i<b. \<Sum>j<d. - 0.5 * (1 + z_log_var ! i ! j - (z_mean ! i ! j)\<^sup>2 - exp (z_log_var ! i ! j))) =
      (\<Sum>i<b. \<Sum>j<d. kl_closed_form (z_mean ! i ! j) (exp (z_log_var ! i ! j)))"
proof -
  have kl: "fwd_kl_loss (tape_block rt vae rnd data (trainable_weights st)) =
      (\<Sum>i<b. \<Sum>j<d. - 0.5 * (1 + z_log_var ! i ! j - (z_mean ! i ! j)\<^sup>2 - exp (z_log_var ! i ! j)))
        / real b"
    using tape_block_fields(6) [OF assms(1), of rt] kl_mean_formula [OF assms(2,3)] by simp
  have "last (calls (snd (train_step rt vae rnd data st))) =
      UpdateState ''kl_loss'' (fwd_kl_loss (tape_block rt vae rnd data (trainable_weights st)))"
    by (simp add: train_step_calls Let_def)
  with kl show ?thesis by (simp only: kl_closed_form_exp)
qed

theorem train_step_kl_loss_witness:
  "self_encoder demo_vae (trainable_weights demo_state) Call (\<lambda>s. []) [[0]] = ([[2]], [[0]], [[5]]) \<and>
   has_shape 1 1 [[2]] \<and> has_shape 1 1 [[0]] \<and> (0::nat) < 1 \<and>
   fwd_kl_loss (tape_block demo_runtime demo_vae (\<lambda>s. []) [[0]] (trainable_weights demo_state)) = 2"
proof -
  have h1: "self_encoder demo_vae (trainable_weights demo_state) Call (\<lambda>s. []) [[0]] = ([[2]], [[0]], [[5]])"
    by (simp add: demo_vae_def)
  have h2: "has_shape 1 1 [[2]]" and h3: "has_shape 1 1 [[0]]" and h4: "(0::nat) < 1"
    by (simp_all add: has_shape_def)
  from train_step_kl_loss [OF h1 h2 h3 h4, of demo_runtime]
  have "fwd_kl_loss (tape_block demo_runtime demo_vae (\<lambda>s. []) [[0]] (trainable_weights demo_state)) = 2"
    by simp
  with h1 h2 h3 show ?thesis by simp
qed

section \<open>The total loss and the reported loss\<close>

lemma data_vae_tape_block:
  "fwd_reconstruction_loss (tape_block demo_runtime data_vae rnd [[m]] ()) = 2"
  "fwd_kl_loss (tape_block demo_runtime data_vae rnd [[m]] ()) = m * m / 2"
  "fwd_total_loss (tape_block demo_runtime data_vae rnd [[m]] ()) = 2 + m * m / 2"
  by (simp_all add: tape_block_def data_vae_def demo_runtime_def Let_def reduce_mean_def
      reduce_sum_axes_1_2_def reduce_sum_axis_1_def s_mul_def s_add_def t_sub_def t_square_def t_exp_def)

text \<open>
  The value reported under \<open>loss\<close> is not the total loss of the step in general. Two
  steps from a fresh state, the first on a batch with total loss 2, the second on a batch
  with reconstruction loss 2, KL loss 2 and total loss 4: the second step reports the
  loss 3, the mean of the two totals.
\<close>

theorem reported_loss_is_running_mean_counterexample:
  "fwd_reconstruction_loss (tape_block demo_runtime data_vae no_noise [[2]] ()) = 2 \<and>
   fwd_kl_loss (tape_block demo_runtime data_vae no_noise [[2]] ()) = 2 \<and>
   fwd_total_loss (tape_block demo_runtime data_vae no_noise [[2]] ()) = 4 \<and>
   fst (train_step demo_runtime data_vae no_noise [[2]]
          (snd (train_step demo_runtime data_vae no_noise [[0]] demo_state))) =
     [(''loss'', 3), (''reconstruction_loss'', 2), (''kl_loss'', 1)]"
  by (simp add: train_step_logs train_step_trackers demo_state_simps data_vae_tape_block
      update_state_def result_def new_Mean_def)

text \<open>
  Claim C3, amended. On a batch that is not empty, the total loss of a step is the
  reconstruction loss plus the KL loss, with no factor on either, and this sum is what the
  gradient is taken of, as a value and as a function of the weights. The step adds it to
  the total-loss tracker, and the \<open>loss\<close> it reports is the result of that tracker after
  the addition, the mean since the last reset; on a fresh tracker it is the total loss of
  the step.
\<close>

theorem train_step_total_loss:
  assumes "data \<noteq> []"
  shows "\<exists>reconstruction_loss kl_loss L R K.
     reconstruction_loss = fwd_reconstruction_loss (tape_block rt vae rnd data (trainable_weights st)) \<and>
     kl_loss = fwd_kl_loss (tape_block rt vae rnd data (trainable_weights st)) \<and>
     fwd_total_loss (tape_block rt vae rnd data (trainable_weights st)) = reconstruction_loss + kl_loss \<and>
     calls (snd (train_step rt vae rnd data st)) ! (length (calls st) + 3) =
       TapeGradient (reconstruction_loss + kl_loss) \<and>
     trainable_weights (snd (train_step rt vae rnd data st)) =
       snd (apply_gradients rt (optimizer st)
         (tape_gradient rt
            (\<lambda>w'. fwd_reconstruction_loss (tape_block rt vae rnd data w') +
                  fwd_kl_loss (tape_block rt vae rnd data w'))
            (trainable_weights st))
         (trainable_weights st)) \<and>
     total_loss_tracker (snd (train_step rt vae rnd data st)) =
       update_state (reconstruction_loss + kl_loss) (total_loss_tracker st) \<and>
     fst (train_step rt vae rnd data st) =
       [(''loss'', L), (''reconstruction_loss'', R), (''kl_loss'', K)] \<and>
     L = result (update_state (reconstruction_loss + kl_loss) (total_loss_tracker st)) \<and>
     (total_loss_tracker st = new_Mean \<longrightarrow> L = reconstruction_loss + kl_loss)"
proof -
  let ?fwd = "tape_block rt vae rnd data (trainable_weights st)"
  let ?st' = "snd (train_step rt vae rnd data st)"
  let ?t = "fwd_reconstruction_loss ?fwd + fwd_kl_loss ?fwd"
  have ev: "calls ?st' ! (length (calls st) + 3) = TapeGradient ?t"
    by (simp add: train_step_calls Let_def nth_append tape_block_total)
  have fn: "(\<lambda>w'. fwd_total_loss (tape_block rt vae rnd data w')) =
      (\<lambda>w'. fwd_reconstruction_loss (tape_block rt vae rnd data w') +
                  fwd_kl_loss (tape_block rt vae rnd data w'))"
    by (simp add: tape_block_total)
  have w: "trainable_weights ?st' =
       snd (apply_gradients rt (optimizer st)
         (tape_gradient rt
            (\<lambda>w'. fwd_reconstruction_loss (tape_block rt vae rnd data w') +
                  fwd_kl_loss (tape_block rt vae rnd data w'))
            (trainable_weights st))
         (trainable_weights st))"
    using train_step_update [of rt vae rnd data st] unfolding fn
    by (metis snd_conv)
  have tr: "total_loss_tracker ?st' = update_state ?t (total_loss_tracker st)"
    by (simp add: train_step_trackers tape_block_total)
  have logs: "fst (train_step rt vae rnd data st) =
       [(''loss'', result (update_state ?t (total_loss_tracker st))),
        (''reconstruction_loss'', result (reconstruction_loss_tracker ?st')),
        (''kl_loss'', result (kl_loss_tracker ?st'))]"
    using train_step_logs [of rt vae rnd data st] by (simp only: tr)
  have fresh: "total_loss_tracker st = new_Mean \<longrightarrow>
      result (update_state ?t (total_loss_tracker st)) = ?t"
    by (simp add: update_state_def result_def new_Mean_def)
  show ?thesis
    using tape_block_total [of rt vae rnd data "trainable_weights st"] ev w tr logs fresh
    by blast
qed

theorem train_step_total_loss_witness:
  "[[0]] \<noteq> ([] :: tensor) \<and> total_loss_tracker demo_state = new_Mean \<and>
   fst (train_step demo_runtime demo_vae no_noise [[0]] demo_state) ! 0 = (''loss'', 4)"
proof -
  have h: "[[0]] \<noteq> ([] :: tensor)" by simp
  from train_step_total_loss [OF h, of demo_runtime demo_vae no_noise demo_state]
  obtain L R K where
    logs: "fst (train_step demo_runtime demo_vae no_noise [[0]] demo_state) =
       [(''loss'', L), (''reconstruction_loss'', R), (''kl_loss'', K)]"
    and first: "total_loss_tracker demo_state = new_Mean \<longrightarrow>
       L = fwd_reconstruction_loss (tape_block demo_runtime demo_vae no_noise [[0]] (trainable_weights demo_state))
         + fwd_kl_loss (tape_block demo_runtime demo_vae no_noise [[0]] (trainable_weights demo_state))"
    by blast
  from first have L: "L = 4" by (simp add: demo_state_simps demo_tape_block)
  with logs show ?thesis by (simp add: demo_state_simps)
qed

section \<open>The encoder\<close>

lemma run_layers_append:
  "run_layers rt w mode m i (ls @ [l]) x =
     apply_layer rt w mode m (i + length ls) l (run_layers rt w mode m i ls x)"
  by (induction ls arbitrary: i x) simp_all

lemma apply_layer_linear:
  "layer_activation l = Linear \<Longrightarrow> apply_layer rt w mode m i l x = layer_op rt w mode m i l x"
proof -
  assume "layer_activation l = Linear"
  then have "activation_fn (layer_activation l) = (\<lambda>v. v)" by (simp add: fun_eq_iff)
  then show ?thesis by (simp add: apply_layer_def)
qed

text \<open>
  Claim C4. The encoder returns the triple \<open>(z_mean, z_log_var, z)\<close> in this order:
  \<open>z_mean\<close> and \<open>z_log_var\<close> are the outputs of two dense layers without activation, both
  applied to the same feature vector \<open>x\<close>, and \<open>z\<close> is the sampling layer applied to
  \<open>(z_mean, z_log_var)\<close>. The feature vector has 16 entries for an input of shape
  \<open>(60, 60, 3)\<close>, and both heads have width \<open>latent_dim\<close>.
\<close>

theorem encoder_outputs:
  "encoder rt w mode rnd encoder_inputs =
     (let x = run_layers rt w mode ''encoder'' 0 encoder_layers encoder_inputs;
          z_mean = layer_op rt w mode ''encoder'' 6 (Dense latent_dim Linear) x;
          z_log_var = layer_op rt w mode ''encoder'' 7 (Dense latent_dim Linear) x
      in (z_mean, z_log_var, Sampling_call rnd (z_mean, z_log_var))) \<and>
   model_shape encoder_layers encoder_input_shape = Some [16] \<and>
   model_shape (encoder_layers @ [z_mean_layer]) encoder_input_shape = Some [latent_dim] \<and>
   model_shape (encoder_layers @ [z_log_var_layer]) encoder_input_shape = Some [latent_dim]"
proof -
  have "encoder rt w mode rnd encoder_inputs =
     (let x = run_layers rt w mode ''encoder'' 0 encoder_layers encoder_inputs;
          z_mean = layer_op rt w mode ''encoder'' 6 (Dense latent_dim Linear) x;
          z_log_var = layer_op rt w mode ''encoder'' 7 (Dense latent_dim Linear) x
      in (z_mean, z_log_var, Sampling_call rnd (z_mean, z_log_var)))"
    by (simp add: encoder_def Let_def z_mean_layer_def z_log_var_layer_def apply_layer_linear)
  moreover have "model_shape encoder_layers encoder_input_shape = Some [16]"
    by (simp add: encoder_layers_def encoder_input_shape_def ceil_div_def)
  moreover have "model_shape (encoder_layers @ [z_mean_layer]) encoder_input_shape = Some [latent_dim]"
    by (simp add: encoder_layers_def encoder_input_shape_def ceil_div_def z_mean_layer_def)
  moreover have "model_shape (encoder_layers @ [z_log_var_layer]) encoder_input_shape = Some [latent_dim]"
    by (simp add: encoder_layers_def encoder_input_shape_def ceil_div_def z_log_var_layer_def)
  ultimately show ?thesis by blast
qed

section \<open>The shape of the output of the decoder\<close>

lemma batch_shape_tensor: "batch_shape b d (t :: tensor) = has_shape b d t"
  by (simp add: batch_shape_def has_shape_def)

lemma batch_shape_map [simp]: "batch_shape b d (map (map f) t) = batch_shape b d t"
  by (simp add: batch_shape_def list_all_length)

lemma batch_shape_single: "batch_shape 1 d t \<Longrightarrow> \<exists>r. t = [r] \<and> length r = d"
  by (cases t) (auto simp: batch_shape_def)

lemma run_layers_shape:
  "keeps_shapes (layer_op rt) w mode m i ls sh \<Longrightarrow> batch_shape b (prod_list sh) x \<Longrightarrow>
     \<exists>sh'. model_shape ls sh = Some sh' \<and>
       batch_shape b (prod_list sh') (run_layers rt w mode m i ls x)"
proof (induction ls arbitrary: i sh x)
  case Nil
  then show ?case by simp
next
  case (Cons l ls)
  from Cons.prems(1) obtain sh1 where sh1: "output_shape l sh = Some sh1"
    and step: "\<forall>b x. batch_shape b (prod_list sh) x \<longrightarrow>
                 batch_shape b (prod_list sh1) (layer_op rt w mode m i l x)"
    and rest: "keeps_shapes (layer_op rt) w mode m (Suc i) ls sh1"
    by (auto split: option.splits)
  from step Cons.prems(2) have "batch_shape b (prod_list sh1) (apply_layer rt w mode m i l x)"
    by (simp add: apply_layer_def)
  from Cons.IH [OF rest this] sh1 show ?case by simp
qed

lemma run_layers_f32_shape:
  "keeps_shapes lop w mode m i ls sh \<Longrightarrow> batch_shape b (prod_list sh) x \<Longrightarrow>
     \<exists>sh'. model_shape ls sh = Some sh' \<and>
       batch_shape b (prod_list sh') (run_layers_f32 lop w mode m i ls x)"
proof (induction ls arbitrary: i sh x)
  case Nil
  then show ?case by simp
next
  case (Cons l ls)
  from Cons.prems(1) obtain sh1 where sh1: "output_shape l sh = Some sh1"
    and step: "\<forall>b x. batch_shape b (prod_list sh) x \<longrightarrow>
                 batch_shape b (prod_list sh1) (lop w mode m i l x)"
    and rest: "keeps_shapes lop w mode m (Suc i) ls sh1"
    by (auto split: option.splits)
  from step Cons.prems(2) have "batch_shape b (prod_list sh1) (apply_layer_f32 lop w mode m i l x)"
    by (simp add: apply_layer_f32_def)
  from Cons.IH [OF rest this] sh1 show ?case by simp
qed

lemma decoder_model_shape: "model_shape decoder_layers latent_input_shape = Some [60, 60, 3]"
  by (simp add: decoder_layers_def latent_input_shape_def latent_dim_def)

lemma heads_model_shape:
  "model_shape (encoder_layers @ [z_mean_layer]) encoder_input_shape = Some latent_input_shape"
  by (simp add: latent_input_shape_def latent_dim_def encoder_input_shape_def
      encoder_layers_def z_mean_layer_def ceil_div_def)

lemma decoder_batch_shape:
  assumes "keeps_shapes (layer_op rt) w mode ''decoder'' 0 decoder_layers latent_input_shape"
    and "batch_shape b latent_dim z"
  shows "batch_shape b (60 * 60 * 3) (decoder rt w mode z)"
proof -
  from assms(2) have "batch_shape b (prod_list latent_input_shape) z"
    by (simp add: latent_input_shape_def)
  from run_layers_shape [OF assms(1) this] show ?thesis
    by (simp add: decoder_model_shape decoder_def)
qed

lemma decoder_f32_batch_shape:
  assumes "keeps_shapes lop w mode ''decoder'' 0 decoder_layers latent_input_shape"
    and "batch_shape b latent_dim z"
  shows "batch_shape b (60 * 60 * 3) (decoder_f32 lop w mode z)"
proof -
  from assms(2) have "batch_shape b (prod_list latent_input_shape) z"
    by (simp add: latent_input_shape_def)
  from run_layers_f32_shape [OF assms(1) this] show ?thesis
    by (simp add: decoder_model_shape decoder_f32_def)
qed

lemma demo_sizes_simps:
  "demo_sizes 0 = 28800" "demo_sizes (Suc 0) = 28800" "demo_sizes (Suc (Suc 0)) = 57600"
  "demo_sizes (Suc (Suc (Suc 0))) = 57600" "demo_sizes (Suc (Suc (Suc (Suc 0)))) = 57600"
  "demo_sizes (Suc (Suc (Suc (Suc (Suc 0))))) = 115200"
  "demo_sizes (Suc (Suc (Suc (Suc (Suc (Suc 0)))))) = 10800"
  by (simp_all add: demo_sizes_def)

lemma batch_shape_fill: "batch_shape b d x \<Longrightarrow> batch_shape b n (map (\<lambda>r. replicate n v) x)"
  by (simp add: batch_shape_def list_all_length)

lemma keeps_shapes_fill:
  "keeps_shapes (\<lambda>w mode m i l x. map (\<lambda>r. replicate (demo_sizes i) v) x) w mode ''decoder'' 0
     decoder_layers latent_input_shape"
  by (simp add: decoder_layers_def latent_input_shape_def latent_dim_def demo_sizes_simps
      batch_shape_fill)

lemma keeps_shapes_demo_runtime:
  "keeps_shapes (layer_op demo_runtime) w mode ''decoder'' 0 decoder_layers latent_input_shape"
  using keeps_shapes_fill [of "- 1 :: real" w mode] by (simp add: demo_runtime_def)

lemma keeps_shapes_demo_lop:
  "keeps_shapes demo_lop w mode ''decoder'' 0 decoder_layers latent_input_shape"
  using keeps_shapes_fill [of "Num (- 1)" w mode] by (simp add: demo_lop_def)

text \<open>
  Claim C5. With a runtime that keeps the shapes of the decoder, the decoder turns every
  batch of \<open>b\<close> latent vectors of \<open>latent_dim = 32\<close> entries into \<open>b\<close> images of
  \<open>60 * 60 * 3\<close> entries, the entries of the shape \<open>(60, 60, 3)\<close> that the layers of the
  decoder announce, which is the input shape of the encoder; and the heads of the encoder
  have the shape of the latent input.
\<close>

theorem decoder_output_shape:
  assumes "keeps_shapes (layer_op rt) w mode ''decoder'' 0 decoder_layers latent_input_shape"
    and "has_shape b latent_dim z"
  shows "has_shape b (60 * 60 * 3) (decoder rt w mode z) \<and>
    model_shape decoder_layers latent_input_shape = Some [60, 60, 3] \<and>
    latent_input_shape = [32] \<and> latent_dim = 32 \<and> encoder_input_shape = [60, 60, 3] \<and>
    model_shape (encoder_layers @ [z_mean_layer]) encoder_input_shape = Some latent_input_shape"
  using decoder_batch_shape [OF assms(1), of b z] assms(2) decoder_model_shape heads_model_shape
  by (simp add: batch_shape_tensor latent_input_shape_def latent_dim_def encoder_input_shape_def)

theorem decoder_output_shape_witness:
  "keeps_shapes (layer_op demo_runtime) () Call ''decoder'' 0 decoder_layers latent_input_shape \<and>
   has_shape 1 latent_dim [replicate 32 0] \<and>
   has_shape 1 (60 * 60 * 3) (decoder demo_runtime () Call [replicate 32 0])"
proof -
  have h1: "keeps_shapes (layer_op demo_runtime) () Call ''decoder'' 0 decoder_layers latent_input_shape"
    by (rule keeps_shapes_demo_runtime)
  have h2: "has_shape 1 latent_dim [replicate 32 0]"
    by (simp add: has_shape_def latent_dim_def)
  from decoder_output_shape [OF h1 h2] h1 h2 show ?thesis by blast
qed

section \<open>The range of the decoder\<close>

lemma run_layers_f32_append:
  "run_layers_f32 lop w mode m i (ls @ [l]) x =
     apply_layer_f32 lop w mode m (i + length ls) l (run_layers_f32 lop w mode m i ls x)"
  by (induction ls arbitrary: i x) simp_all

lemma decoder_last_layer:
  "decoder rt w mode z =
     map (map tanh) (layer_op rt w mode ''decoder'' 6 (Conv2DTranspose 3 3 Tanh 1 Same)
       (run_layers rt w mode ''decoder'' 0 (butlast decoder_layers) z))"
proof -
  have "decoder_layers = butlast decoder_layers @ [Conv2DTranspose 3 3 Tanh 1 Same]"
    by (simp add: decoder_layers_def)
  then have "decoder rt w mode z =
      apply_layer rt w mode ''decoder'' (0 + length (butlast decoder_layers))
        (Conv2DTranspose 3 3 Tanh 1 Same)
        (run_layers rt w mode ''decoder'' 0 (butlast decoder_layers) z)"
    unfolding decoder_def by (metis run_layers_append)
  moreover have "length (butlast decoder_layers) = 6" by (simp add: decoder_layers_def)
  moreover have "activation_fn (layer_activation (Conv2DTranspose 3 3 Tanh 1 Same)) = tanh"
    by (simp add: fun_eq_iff)
  ultimately show ?thesis by (simp add: apply_layer_def)
qed

lemma decoder_f32_last_layer:
  "decoder_f32 lop w mode z =
     map (map (activation_f32 Tanh)) (lop w mode ''decoder'' 6 (Conv2DTranspose 3 3 Tanh 1 Same)
       (run_layers_f32 lop w mode ''decoder'' 0 (butlast decoder_layers) z))"
proof -
  have "decoder_layers = butlast decoder_layers @ [Conv2DTranspose 3 3 Tanh 1 Same]"
    by (simp add: decoder_layers_def)
  then have "decoder_f32 lop w mode z =
      apply_layer_f32 lop w mode ''decoder'' (0 + length (butlast decoder_layers))
        (Conv2DTranspose 3 3 Tanh 1 Same)
        (run_layers_f32 lop w mode ''decoder'' 0 (butlast decoder_layers) z)"
    unfolding decoder_f32_def by (metis run_layers_f32_append)
  moreover have "length (butlast decoder_layers) = 6" by (simp add: decoder_layers_def)
  ultimately show ?thesis by (simp add: apply_layer_f32_def)
qed

lemma tanh_f32_cases:
  "(activation_f32 Tanh v = NaN \<longleftrightarrow> v = NaN) \<and>
   (activation_f32 Tanh v = NaN \<or> f32_between (- 1) 1 (activation_f32 Tanh v)) \<and>
   (\<forall>x. v = Num x \<longrightarrow> activation_f32 Tanh v = Num (tanh x) \<and> (tanh x < 0 \<longleftrightarrow> x < 0))"
proof (cases v)
  case (Num x)
  then show ?thesis
    using tanh_real_gt_neg1 [of x] tanh_real_lt_1 [of x] by simp
qed simp_all

lemma tanh_f32_entries:
  "\<forall>r\<in>set (map (map (activation_f32 Tanh)) pre). \<forall>v\<in>set r. v = NaN \<or> f32_between (- 1) 1 v"
proof (intro ballI)
  fix r v assume "r \<in> set (map (map (activation_f32 Tanh)) pre)" "v \<in> set r"
  then obtain u where "v = activation_f32 Tanh u" by auto
  then show "v = NaN \<or> f32_between (- 1) 1 v" using tanh_f32_cases [of u] by blast
qed

lemma decoder_nan_lop:
  "decoder_f32 nan_lop () mode [replicate 32 (Num 0)] = [replicate (60 * 60 * 3) NaN]"
  by (simp add: decoder_f32_def decoder_layers_def apply_layer_f32_def nan_lop_def demo_sizes_simps)

lemma decoder_demo_lop:
  "decoder_f32 demo_lop () mode [replicate 32 (Num 0)] = [replicate (60 * 60 * 3) (Num (tanh (- 1)))]"
  by (simp add: decoder_f32_def decoder_layers_def apply_layer_f32_def demo_lop_def demo_sizes_simps)

text \<open>
  An entry of the output of the decoder need not lie between \<open>- 1\<close> and 1: when the last
  layer computes NaN before the activation, the entry is NaN.
\<close>

theorem decoder_output_nan_counterexample:
  "decoder_f32 nan_lop () Call [replicate 32 (Num 0)] = [replicate (60 * 60 * 3) NaN] \<and>
   decoder_f32 nan_lop () Call [replicate 32 (Num 0)] ! 0 ! 0 = NaN \<and>
   \<not> f32_between (- 1) 1 (decoder_f32 nan_lop () Call [replicate 32 (Num 0)] ! 0 ! 0)"
  by (simp add: decoder_nan_lop)

text \<open>
  Claim C9, amended. The output of the decoder is the hyperbolic tangent of what its last
  layer computes before the activation. Every entry that is not NaN lies between \<open>- 1\<close>
  and 1; an entry is NaN exactly when the entry before the activation is; and where that
  entry is a number \<open>x\<close> the output is \<open>tanh x\<close>, negative exactly when \<open>x\<close> is. In
  \<open>train_step\<close> of the script's model the output of the decoder is passed to the binary
  cross-entropy as it is.
\<close>

theorem decoder_output_range:
  "\<exists>pre. pre = lop w mode ''decoder'' 6 (Conv2DTranspose 3 3 Tanh 1 Same)
              (run_layers_f32 lop w mode ''decoder'' 0 (butlast decoder_layers) z) \<and>
     decoder_f32 lop w mode z = map (map (activation_f32 Tanh)) pre \<and>
     (\<forall>r\<in>set (decoder_f32 lop w mode z). \<forall>v\<in>set r. v = NaN \<or> f32_between (- 1) 1 v) \<and>
     (\<forall>i<length pre. \<forall>j<length (pre ! i).
        (decoder_f32 lop w mode z ! i ! j = NaN \<longleftrightarrow> pre ! i ! j = NaN) \<and>
        (\<forall>x. pre ! i ! j = Num x \<longrightarrow>
           decoder_f32 lop w mode z ! i ! j = Num (tanh x) \<and> (tanh x < 0 \<longleftrightarrow> x < 0))) \<and>
     decoder rt w' mode' z' =
       map (map tanh) (layer_op rt w' mode' ''decoder'' 6 (Conv2DTranspose 3 3 Tanh 1 Same)
         (run_layers rt w' mode' ''decoder'' 0 (butlast decoder_layers) z')) \<and>
     calls (snd (train_step rt (script_vae rt) rnd data st)) ! (length (calls st) + 2) =
       BinaryCrossentropy data
         (decoder rt (trainable_weights st) Call
            (fwd_z (tape_block rt (script_vae rt) rnd data (trainable_weights st))))"
proof -
  let ?pre = "lop w mode ''decoder'' 6 (Conv2DTranspose 3 3 Tanh 1 Same)
              (run_layers_f32 lop w mode ''decoder'' 0 (butlast decoder_layers) z)"
  have d: "decoder_f32 lop w mode z = map (map (activation_f32 Tanh)) ?pre"
    by (rule decoder_f32_last_layer)
  have range: "\<forall>r\<in>set (decoder_f32 lop w mode z). \<forall>v\<in>set r. v = NaN \<or> f32_between (- 1) 1 v"
    unfolding d by (rule tanh_f32_entries)
  have entry: "(decoder_f32 lop w mode z ! i ! j = NaN \<longleftrightarrow> ?pre ! i ! j = NaN) \<and>
        (\<forall>x. ?pre ! i ! j = Num x \<longrightarrow>
           decoder_f32 lop w mode z ! i ! j = Num (tanh x) \<and> (tanh x < 0 \<longleftrightarrow> x < 0))"
    if "i < length ?pre" "j < length (?pre ! i)" for i j
  proof -
    have "decoder_f32 lop w mode z ! i ! j = activation_f32 Tanh (?pre ! i ! j)"
      unfolding d using that by simp
    then show ?thesis using tanh_f32_cases [of "?pre ! i ! j"] by metis
  qed
  have "fwd_reconstruction (tape_block rt (script_vae rt) rnd data (trainable_weights st)) =
      decoder rt (trainable_weights st) Call
        (fwd_z (tape_block rt (script_vae rt) rnd data (trainable_weights st)))"
    by (simp add: tape_block_def Let_def script_vae_def split: prod.split)
  then have fed: "calls (snd (train_step rt (script_vae rt) rnd data st)) ! (length (calls st) + 2) =
       BinaryCrossentropy data
         (decoder rt (trainable_weights st) Call
            (fwd_z (tape_block rt (script_vae rt) rnd data (trainable_weights st))))"
    by (simp add: train_step_calls Let_def nth_append)
  from d range entry fed decoder_last_layer [of rt w' mode' z'] show ?thesis by blast
qed

theorem decoder_output_range_witness:
  "decoder_f32 demo_lop () Call [replicate 32 (Num 0)] ! 0 ! 0 = Num (tanh (- 1)) \<and>
   f32_between (- 1) 1 (decoder_f32 demo_lop () Call [replicate 32 (Num 0)] ! 0 ! 0) \<and>
   tanh (- 1 :: real) < 0"
proof -
  let ?out = "decoder_f32 demo_lop () Call [replicate 32 (Num 0)]"
  from decoder_output_range [of demo_lop "()" Call "[replicate 32 (Num 0)]"
      demo_runtime "()" Call "[[0]]" no_noise "[[0]]" demo_state]
  obtain pre where out: "?out = map (map (activation_f32 Tanh)) pre"
    and range: "\<forall>r\<in>set ?out. \<forall>v\<in>set r. v = NaN \<or> f32_between (- 1) 1 v"
    and entry: "\<forall>i<length pre. \<forall>j<length (pre ! i).
        (?out ! i ! j = NaN \<longleftrightarrow> pre ! i ! j = NaN) \<and>
        (\<forall>x. pre ! i ! j = Num x \<longrightarrow> ?out ! i ! j = Num (tanh x) \<and> (tanh x < 0 \<longleftrightarrow> x < 0))"
    by blast
  have val: "?out = [replicate (60 * 60 * 3) (Num (tanh (- 1)))]" by (rule decoder_demo_lop)
  have v00: "?out ! 0 ! 0 = Num (tanh (- 1))" by (simp add: val)
  have "?out ! 0 \<in> set ?out" and "?out ! 0 ! 0 \<in> set (?out ! 0)" by (simp_all add: val)
  with range have "?out ! 0 ! 0 = NaN \<or> f32_between (- 1) 1 (?out ! 0 ! 0)" by blast
  then have btw: "f32_between (- 1) 1 (?out ! 0 ! 0)" by (simp add: v00)
  have "tanh (- 1 :: real) < 0" by simp
  with v00 btw show ?thesis by simp
qed

section \<open>The generation loop\<close>

lemma chunks_Nil [simp]: "chunks n [] = []"
  by (subst chunks.simps) simp

lemma chunks_step: "0 < n \<Longrightarrow> xs \<noteq> [] \<Longrightarrow> chunks n xs = take n xs # chunks n (drop n xs)"
  by (subst chunks.simps) simp

lemma chunks_shape:
  "0 < n \<Longrightarrow> length xs = m * n \<Longrightarrow>
     length (chunks n xs) = m \<and> (\<forall>c\<in>set (chunks n xs). length c = n)"
proof (induction m arbitrary: xs)
  case 0
  then show ?case by simp
next
  case (Suc m)
  then have ne: "xs \<noteq> []" by auto
  have "length (drop n xs) = m * n" using Suc.prems by simp
  then have ih: "length (chunks n (drop n xs)) = m \<and> (\<forall>c\<in>set (chunks n (drop n xs)). length c = n)"
    using Suc.IH [OF Suc.prems(1)] by blast
  have "length (take n xs) = n" using Suc.prems by simp
  with ih show ?case by (simp add: chunks_step [OF Suc.prems(1) ne])
qed

lemma reshape_shape:
  assumes "length (a :: 'a list) = h * w * c" and "0 < w" and "0 < c"
  shows "\<exists>img. reshape a (h, w, c) = Inr img \<and> length img = h \<and>
           (\<forall>row\<in>set img. length row = w \<and> (\<forall>px\<in>set row. length px = c))"
proof -
  have 1: "length (chunks c a) = h * w \<and> (\<forall>px\<in>set (chunks c a). length px = c)"
    using chunks_shape [OF assms(3), of a "h * w"] assms(1) by simp
  then have 2: "length (chunks w (chunks c a)) = h \<and>
      (\<forall>row\<in>set (chunks w (chunks c a)). length row = w)"
    using chunks_shape [OF assms(2), of "chunks c a" h] by simp
  have 3: "\<forall>row\<in>set (chunks w (chunks c a)). \<forall>px\<in>set row. px \<in> set (chunks c a)"
  proof -
    have "set row \<subseteq> set xs" if "row \<in> set (chunks w xs)" for row and xs :: "'a list list"
      using that
    proof (induction "length xs" arbitrary: xs rule: less_induct)
      case less
      show ?case
      proof (cases "xs = []")
        case True
        with less.prems show ?thesis by simp
      next
        case False
        from less.prems have "row = take w xs \<or> row \<in> set (chunks w (drop w xs))"
          by (simp add: chunks_step [OF assms(2) False])
        then show ?thesis
        proof
          assume "row = take w xs"
          then show ?thesis by (auto dest: in_set_takeD)
        next
          assume r: "row \<in> set (chunks w (drop w xs))"
          have "length (drop w xs) < length xs" using False assms(2) by simp
          from less.hyps [OF this r] show ?thesis by (auto dest: in_set_dropD)
        qed
      qed
    qed
    then show ?thesis by blast
  qed
  from 1 2 3 have "length (chunks w (chunks c a)) = h \<and>
      (\<forall>row\<in>set (chunks w (chunks c a)). length row = w \<and> (\<forall>px\<in>set row. length px = c))"
    by blast
  with assms(1) show ?thesis by (simp add: reshape_def)
qed

lemma chunks_replicate: "0 < n \<Longrightarrow> chunks n (replicate (m * n) v) = replicate m (replicate n v)"
proof (induction m)
  case 0
  then show ?case by simp
next
  case (Suc m)
  let ?xs = "replicate (Suc m * n) v"
  have ne: "?xs \<noteq> []" using Suc.prems by simp
  have t: "take n ?xs = replicate n v" by simp
  have d: "drop n ?xs = replicate (m * n) v" by simp
  have "chunks n ?xs = take n ?xs # chunks n (drop n ?xs)"
    by (rule chunks_step [OF Suc.prems ne])
  also have "\<dots> = replicate n v # replicate m (replicate n v)"
    by (simp only: t d Suc.IH [OF Suc.prems])
  finally show ?case by (simp only: replicate.simps)
qed

lemma reshape_replicate:
  "reshape (replicate (60 * 60 * 3) v) (60, 60, 3) = Inr (replicate 60 (replicate 60 (replicate 3 v)))"
proof -
  have "chunks 3 (replicate (3600 * 3) v) = replicate 3600 (replicate 3 v)"
    by (rule chunks_replicate) simp
  moreover have "chunks 60 (replicate (60 * 60) (replicate 3 v)) = replicate 60 (replicate 60 (replicate 3 v))"
    by (rule chunks_replicate) simp
  ultimately show ?thesis by (simp add: reshape_def)
qed

lemma clip_cases:
  "(clip v 0 1 = NaN \<longleftrightarrow> v = NaN) \<and>
   (clip v 0 1 = NaN \<or> f32_between 0 1 (clip v 0 1)) \<and>
   (\<forall>x. v = Num x \<longrightarrow>
      (x < 0 \<longrightarrow> clip v 0 1 = Num 0) \<and> (1 < x \<longrightarrow> clip v 0 1 = Num 1) \<and>
      (0 \<le> x \<and> x \<le> 1 \<longrightarrow> clip v 0 1 = Num x))"
  by (cases v) (simp_all add: min_def max_def)

lemma np_clip_nth:
  "r < length img \<Longrightarrow> c < length (img ! r) \<Longrightarrow> k < length (img ! r ! c) \<Longrightarrow>
     np_clip img a_min a_max ! r ! c ! k = clip (img ! r ! c ! k) a_min a_max"
  by (simp add: np_clip_def)

lemma shown_range:
  "\<forall>row\<in>set (cvtColor_BGR2RGB (np_clip img 0 1)). \<forall>px\<in>set row. \<forall>v\<in>set px.
     v = NaN \<or> f32_between 0 1 v"
proof (intro ballI)
  fix row px v
  assume "row \<in> set (cvtColor_BGR2RGB (np_clip img 0 1))" "px \<in> set row" "v \<in> set px"
  then obtain u where "v = clip u 0 1"
    by (auto simp: cvtColor_BGR2RGB_def np_clip_def)
  then show "v = NaN \<or> f32_between 0 1 v" using clip_cases [of u] by blast
qed

lemma predict_one:
  assumes "keeps_shapes lop w Predict ''decoder'' 0 decoder_layers latent_input_shape"
    and "length zs = latent_dim"
  shows "\<exists>x0 img. decoder_f32 lop w Predict [map Num zs] = [x0] \<and>
     reshape x0 (60, 60, 3) = Inr img \<and> length img = 60 \<and>
     (\<forall>row\<in>set img. length row = 60 \<and> (\<forall>px\<in>set row. length px = 3))"
proof -
  have "batch_shape 1 latent_dim [map Num zs]"
    using assms(2) by (simp add: batch_shape_def)
  from decoder_f32_batch_shape [OF assms(1) this]
  obtain x0 where x0: "decoder_f32 lop w Predict [map Num zs] = [x0]" and len: "length x0 = 60 * 60 * 3"
    using batch_shape_single by blast
  from reshape_shape [of x0 60 60 3] len x0 show ?thesis by auto
qed

lemma generate_image_ok:
  assumes "decoder_f32 lop w Predict [map Num (np_random_normal i (0, 1, latent_dim))] = x0 # others"
    and "reshape x0 (60, 60, 3) = Inr img"
  shows "generate_image lop w np_random_normal i tr =
      Inr (tr @ [NpRandomNormal 0 1 latent_dim,
                 DecoderPredict [np_random_normal i (0, 1, latent_dim)],
                 Imshow (i + 1) (cvtColor_BGR2RGB (np_clip img 0 1))])"
  using assms by (simp add: generate_image_def Let_def)

lemma zero_draws_simp: "zero_draws i (0, 1, latent_dim) = replicate 32 0"
  by (simp add: zero_draws_def latent_dim_def)

text \<open>
  A pixel passed to \<open>imshow\<close> need not lie between 0 and 1: when the decoder predicts
  NaN, the image shown holds NaN, since \<open>np.clip\<close> leaves it.
\<close>

theorem generated_image_nan_counterexample:
  "generate_image nan_lop () zero_draws 0 [] =
     Inr [NpRandomNormal 0 1 latent_dim, DecoderPredict [replicate 32 0],
          Imshow 1 (replicate 60 (replicate 60 (replicate 3 NaN)))] \<and>
   replicate 60 (replicate 60 (replicate 3 NaN)) ! 0 ! 0 ! 0 = NaN \<and>
   \<not> f32_between 0 1 NaN"
proof -
  have d: "decoder_f32 nan_lop () Predict [map Num (zero_draws 0 (0, 1, latent_dim))] =
      replicate (60 * 60 * 3) NaN # []"
    using decoder_nan_lop [of Predict] by (simp add: zero_draws_simp)
  have "generate_image nan_lop () zero_draws 0 [] =
      Inr ([] @ [NpRandomNormal 0 1 latent_dim, DecoderPredict [zero_draws 0 (0, 1, latent_dim)],
          Imshow (0 + 1) (cvtColor_BGR2RGB (np_clip (replicate 60 (replicate 60 (replicate 3 NaN))) 0 1))])"
    using generate_image_ok [of nan_lop "()" zero_draws 0 "replicate (60 * 60 * 3) NaN" "[]"
        "replicate 60 (replicate 60 (replicate 3 NaN))" "[]"] d reshape_replicate [of NaN]
    by blast
  then show ?thesis
    by (simp add: zero_draws_simp np_clip_def cvtColor_BGR2RGB_def)
qed

text \<open>
  Claim C10, amended. In a turn of the generation loop, with a runtime that keeps the
  shapes of the decoder and a generator that returns as many numbers as asked, the image
  passed to \<open>imshow\<close> is the prediction of the decoder reshaped, clipped and with its
  channels reversed. Every entry of it that is not NaN lies between 0 and 1. Entry by
  entry the clipping maps a number below 0 to 0, a number above 1 to 1, leaves a number
  between them, and leaves NaN.
\<close>

theorem generated_image_clipped:
  assumes "keeps_shapes lop w Predict ''decoder'' 0 decoder_layers latent_input_shape"
    and "length (np_random_normal i (0, 1, latent_dim)) = latent_dim"
  shows "\<exists>x0 img. decoder_f32 lop w Predict [map Num (np_random_normal i (0, 1, latent_dim))] = [x0] \<and>
     reshape x0 (60, 60, 3) = Inr img \<and>
     generate_image lop w np_random_normal i tr =
       Inr (tr @ [NpRandomNormal 0 1 latent_dim,
                  DecoderPredict [np_random_normal i (0, 1, latent_dim)],
                  Imshow (i + 1) (cvtColor_BGR2RGB (np_clip img 0 1))]) \<and>
     (\<forall>row\<in>set (cvtColor_BGR2RGB (np_clip img 0 1)). \<forall>px\<in>set row. \<forall>v\<in>set px.
        v = NaN \<or> f32_between 0 1 v) \<and>
     (\<forall>r<length img. \<forall>c<length (img ! r). \<forall>k<length (img ! r ! c).
        np_clip img 0 1 ! r ! c ! k = clip (img ! r ! c ! k) 0 1 \<and>
        (np_clip img 0 1 ! r ! c ! k = NaN \<longleftrightarrow> img ! r ! c ! k = NaN) \<and>
        (\<forall>x. img ! r ! c ! k = Num x \<longrightarrow>
           (x < 0 \<longrightarrow> np_clip img 0 1 ! r ! c ! k = Num 0) \<and>
           (1 < x \<longrightarrow> np_clip img 0 1 ! r ! c ! k = Num 1) \<and>
           (0 \<le> x \<and> x \<le> 1 \<longrightarrow> np_clip img 0 1 ! r ! c ! k = Num x)))"
proof -
  obtain x0 img
    where x0: "decoder_f32 lop w Predict [map Num (np_random_normal i (0, 1, latent_dim))] = [x0]"
      and img: "reshape x0 (60, 60, 3) = Inr img"
    using predict_one [OF assms] by blast
  have "np_clip img 0 1 ! r ! c ! k = clip (img ! r ! c ! k) 0 1 \<and>
        (np_clip img 0 1 ! r ! c ! k = NaN \<longleftrightarrow> img ! r ! c ! k = NaN) \<and>
        (\<forall>x. img ! r ! c ! k = Num x \<longrightarrow>
           (x < 0 \<longrightarrow> np_clip img 0 1 ! r ! c ! k = Num 0) \<and>
           (1 < x \<longrightarrow> np_clip img 0 1 ! r ! c ! k = Num 1) \<and>
           (0 \<le> x \<and> x \<le> 1 \<longrightarrow> np_clip img 0 1 ! r ! c ! k = Num x))"
    if "r < length img" "c < length (img ! r)" "k < length (img ! r ! c)" for r c k
    using np_clip_nth [OF that, of 0 1] clip_cases [of "img ! r ! c ! k"] by simp
  with x0 img generate_image_ok [of lop w np_random_normal i x0 "[]" img tr] shown_range [of img]
  show ?thesis by blast
qed

theorem generated_image_clipped_witness:
  "keeps_shapes demo_lop () Predict ''decoder'' 0 decoder_layers latent_input_shape \<and>
   length (zero_draws 0 (0, 1, latent_dim)) = latent_dim \<and>
   generate_image demo_lop () zero_draws 0 [] =
     Inr [NpRandomNormal 0 1 latent_dim, DecoderPredict [replicate 32 0],
          Imshow 1 (replicate 60 (replicate 60 (replicate 3 (Num 0))))]"
proof -
  have h1: "keeps_shapes demo_lop () Predict ''decoder'' 0 decoder_layers latent_input_shape"
    by (rule keeps_shapes_demo_lop)
  have h2: "length (zero_draws 0 (0, 1, latent_dim)) = latent_dim"
    by (simp add: zero_draws_def)
  from generated_image_clipped [of demo_lop "()" zero_draws 0 "[]"] h1 h2
  obtain x0 img
    where x0: "decoder_f32 demo_lop () Predict [map Num (zero_draws 0 (0, 1, latent_dim))] = [x0]"
      and img: "reshape x0 (60, 60, 3) = Inr img"
      and gen: "generate_image demo_lop () zero_draws 0 [] =
        Inr ([] @ [NpRandomNormal 0 1 latent_dim, DecoderPredict [zero_draws 0 (0, 1, latent_dim)],
                  Imshow (0 + 1) (cvtColor_BGR2RGB (np_clip img 0 1))])"
    by blast
  from x0 have "x0 = replicate (60 * 60 * 3) (Num (tanh (- 1)))"
    using decoder_demo_lop [of Predict] by (simp add: zero_draws_simp)
  with img have "img = replicate 60 (replicate 60 (replicate 3 (Num (tanh (- 1)))))"
    using reshape_replicate [of "Num (tanh (- 1))"] by simp
  then have "cvtColor_BGR2RGB (np_clip img 0 1) = replicate 60 (replicate 60 (replicate 3 (Num 0)))"
    by (simp add: np_clip_def cvtColor_BGR2RGB_def max_def)
  with gen h1 h2 show ?thesis by (simp add: zero_draws_simp)
qed

lemma for_range_append:
  "(\<And>i tr. i \<in> set xs \<Longrightarrow> body i tr = Inr (tr @ ev i)) \<Longrightarrow>
     for_range body xs tr = Inr (tr @ concat (map ev xs))"
  by (induction xs arbitrary: tr) simp_all

lemma images_shown_append: "images_shown (xs @ ys) = images_shown xs @ images_shown ys"
  by (induction xs rule: images_shown.induct) simp_all

lemma encoder_calls_append: "encoder_calls (xs @ ys) = encoder_calls xs @ encoder_calls ys"
  by (induction xs rule: encoder_calls.induct) simp_all

lemma turns_images_shown:
  "images_shown (concat (map (\<lambda>i. [NpRandomNormal a b c, DecoderPredict (z i), Imshow (p i) (g i)]) xs)) =
     map (\<lambda>i. (p i, g i)) xs"
  by (induction xs) simp_all

lemma turns_encoder_calls:
  "encoder_calls (concat (map (\<lambda>i. [NpRandomNormal a b c, DecoderPredict (z i), Imshow (p i) (g i)]) xs)) = []"
  by (induction xs) simp_all

text \<open>
  Claim C7. With a runtime that keeps the shapes of the decoder and a generator that
  returns as many numbers as asked, the generation makes twelve turns, for \<open>i\<close> from 0 to
  11: a draw of \<open>latent_dim = 32\<close> numbers from the normal distribution of mean 0 and
  scale 1, the prediction of the decoder on that one vector, and the display at position
  \<open>i + 1\<close> of the image of 60 rows obtained from that prediction by reshaping, clipping
  and reversing the channels; then the figure is displayed. Twelve images are shown in
  all and the encoder is not called.
\<close>

theorem generation_twelve_images:
  assumes "keeps_shapes lop w Predict ''decoder'' 0 decoder_layers latent_input_shape"
    and "\<forall>i<12. length (np_random_normal i (0, 1, latent_dim)) = latent_dim"
  shows "\<exists>x0s imgs new. length x0s = 12 \<and> length imgs = 12 \<and>
     (\<forall>i<12. decoder_f32 lop w Predict [map Num (np_random_normal i (0, 1, latent_dim))] = [x0s ! i] \<and>
        reshape (x0s ! i) (60, 60, 3) = Inr (imgs ! i) \<and> length (imgs ! i) = 60) \<and>
     generation lop w np_random_normal tr = Inr (tr @ new) \<and>
     new = concat (map (\<lambda>i. [NpRandomNormal 0 1 latent_dim,
                              DecoderPredict [np_random_normal i (0, 1, latent_dim)],
                              Imshow (i + 1) (cvtColor_BGR2RGB (np_clip (imgs ! i) 0 1))]) [0..<12])
           @ [PltShow] \<and>
     images_shown new = map (\<lambda>i. (i + 1, cvtColor_BGR2RGB (np_clip (imgs ! i) 0 1))) [0..<12] \<and>
     encoder_calls new = [] \<and>
     latent_dim = 32"
proof -
  have "\<forall>i. \<exists>p. i < 12 \<longrightarrow>
      decoder_f32 lop w Predict [map Num (np_random_normal i (0, 1, latent_dim))] = [fst p] \<and>
      reshape (fst p) (60, 60, 3) = Inr (snd p) \<and> length (snd p) = 60"
    using predict_one [OF assms(1)] assms(2) by (metis fst_conv snd_conv)
  then obtain f where f: "\<And>i. i < 12 \<Longrightarrow>
      decoder_f32 lop w Predict [map Num (np_random_normal i (0, 1, latent_dim))] = [fst (f i)] \<and>
      reshape (fst (f i)) (60, 60, 3) = Inr (snd (f i)) \<and> length (snd (f i)) = 60"
    by metis
  define x0s where "x0s = map (\<lambda>i. fst (f i)) [0..<12]"
  define imgs where "imgs = map (\<lambda>i. snd (f i)) [0..<12]"
  have nx: "x0s ! i = fst (f i)" if "i < 12" for i
    using that unfolding x0s_def by (simp only: nth_map_upt) simp
  have ni: "imgs ! i = snd (f i)" if "i < 12" for i
    using that unfolding imgs_def by (simp only: nth_map_upt) simp
  have lens: "length x0s = 12" "length imgs = 12" by (simp_all add: x0s_def imgs_def)
  have pin: "\<forall>i<12. decoder_f32 lop w Predict [map Num (np_random_normal i (0, 1, latent_dim))] = [x0s ! i] \<and>
        reshape (x0s ! i) (60, 60, 3) = Inr (imgs ! i) \<and> length (imgs ! i) = 60"
    using f nx ni by simp
  let ?ev = "\<lambda>i. [NpRandomNormal 0 1 latent_dim,
                  DecoderPredict [np_random_normal i (0, 1, latent_dim)],
                  Imshow (i + 1) (cvtColor_BGR2RGB (np_clip (imgs ! i) 0 1))]"
  have turn: "generate_image lop w np_random_normal i tr' = Inr (tr' @ ?ev i)"
    if "i \<in> set [0..<12]" for i tr'
  proof -
    from that have i: "i < 12" by simp
    with pin have "decoder_f32 lop w Predict [map Num (np_random_normal i (0, 1, latent_dim))] = x0s ! i # []"
      and "reshape (x0s ! i) (60, 60, 3) = Inr (imgs ! i)" by simp_all
    then show ?thesis
      using generate_image_ok [of lop w np_random_normal i "x0s ! i" "[]" "imgs ! i" tr'] by simp
  qed
  have loop: "for_range (generate_image lop w np_random_normal) [0..<12] tr =
      Inr (tr @ concat (map ?ev [0..<12]))"
    by (rule for_range_append) (rule turn)
  let ?new = "concat (map ?ev [0..<12]) @ [PltShow]"
  have gen: "generation lop w np_random_normal tr = Inr (tr @ ?new)"
    by (simp only: generation_def loop sum.case append_assoc)
  have shown: "images_shown ?new = map (\<lambda>i. (i + 1, cvtColor_BGR2RGB (np_clip (imgs ! i) 0 1))) [0..<12]"
    by (simp only: images_shown_append turns_images_shown) simp
  have enc: "encoder_calls ?new = []"
    by (simp only: encoder_calls_append turns_encoder_calls) simp
  from lens pin gen shown enc show ?thesis
    by (simp only: latent_dim_def) blast
qed

theorem generation_twelve_images_witness:
  "keeps_shapes demo_lop () Predict ''decoder'' 0 decoder_layers latent_input_shape \<and>
   length (zero_draws 0 (0, 1, latent_dim)) = latent_dim \<and>
   length (zero_draws 11 (0, 1, latent_dim)) = latent_dim \<and>
   (\<exists>new. generation demo_lop () zero_draws [] = Inr new \<and>
      length (images_shown new) = 12 \<and> encoder_calls new = [])"
proof -
  have h1: "keeps_shapes demo_lop () Predict ''decoder'' 0 decoder_layers latent_input_shape"
    by (rule keeps_shapes_demo_lop)
  have h2: "\<forall>i<12. length (zero_draws i (0, 1, latent_dim)) = latent_dim"
    by (simp add: zero_draws_def)
  from generation_twelve_images [of demo_lop "()" zero_draws "[]"] h1 h2
  obtain imgs new where "generation demo_lop () zero_draws [] = Inr ([] @ new)"
    and "images_shown new = map (\<lambda>i. (i + 1, cvtColor_BGR2RGB (np_clip (imgs ! i) 0 1))) [0..<12]"
    and "encoder_calls new = []"
    by blast
  then have "\<exists>new. generation demo_lop () zero_draws [] = Inr new \<and>
      length (images_shown new) = 12 \<and> encoder_calls new = []"
    by simp
  with h1 h2 show ?thesis by simp
qed

section \<open>The training schedule\<close>

lemma epochs_begun_append: "epochs_begun (xs @ ys) = epochs_begun xs @ epochs_begun ys"
  by (induction xs rule: epochs_begun.induct) simp_all

lemma batches_Nil [simp]: "batches n [] = []"
  by (subst batches.simps) simp

lemma batches_step: "0 < n \<Longrightarrow> xs \<noteq> [] \<Longrightarrow> batches n xs = take n xs # batches n (drop n xs)"
  by (subst batches.simps) simp

lemma batches_sizes: "0 < n \<Longrightarrow> \<forall>b\<in>set (batches n xs). b \<noteq> [] \<and> length b \<le> n"
proof (induction "length xs" arbitrary: xs rule: less_induct)
  case less
  show ?case
  proof (cases "xs = []")
    case True
    then show ?thesis by simp
  next
    case False
    have "length (drop n xs) < length xs" using False less.prems by simp
    from less.hyps [OF this less.prems] have "\<forall>b\<in>set (batches n (drop n xs)). b \<noteq> [] \<and> length b \<le> n" .
    moreover have "take n xs \<noteq> [] \<and> length (take n xs) \<le> n" using False less.prems by simp
    ultimately show ?thesis by (simp add: batches_step [OF less.prems False])
  qed
qed

lemma batches_concat: "0 < n \<Longrightarrow> concat (batches n xs) = xs"
proof (induction "length xs" arbitrary: xs rule: less_induct)
  case less
  show ?case
  proof (cases "xs = []")
    case True
    then show ?thesis by simp
  next
    case False
    have "length (drop n xs) < length xs" using False less.prems by simp
    from less.hyps [OF this less.prems] have "concat (batches n (drop n xs)) = drop n xs" .
    then show ?thesis by (simp add: batches_step [OF less.prems False])
  qed
qed

lemma train_step_summary:
  "\<exists>ev. calls (snd (train_step rt vae rnd data st)) = calls st @ ev \<and>
     epochs_begun ev = [] \<and> encoder_calls ev = [data] \<and>
     length (filter (\<lambda>e. e = ApplyGradients) ev) = 1"
  by (simp add: train_step_calls Let_def)

lemma train_step_step_update:
  "(optimizer (snd (train_step rt vae rnd data st)),
    trainable_weights (snd (train_step rt vae rnd data st))) =
     step_update rt vae rnd data (optimizer st, trainable_weights st)"
  by (simp add: train_step_update step_update_def)

lemma steps_summary:
  "\<exists>ev. calls (fold (\<lambda>(k, batch) st. snd (train_step rt vae (rnd k) batch st)) kbs st) = calls st @ ev \<and>
     epochs_begun ev = [] \<and> encoder_calls ev = map snd kbs \<and>
     length (filter (\<lambda>e. e = ApplyGradients) ev) = length kbs"
proof (induction kbs arbitrary: st)
  case Nil
  then show ?case by simp
next
  case (Cons kb kbs)
  obtain k batch where kb: "kb = (k, batch)" by (cases kb)
  let ?s = "snd (train_step rt vae (rnd k) batch st)"
  obtain ev1 where ev1: "calls ?s = calls st @ ev1" "epochs_begun ev1 = []"
      "encoder_calls ev1 = [batch]" "length (filter (\<lambda>e. e = ApplyGradients) ev1) = 1"
    using train_step_summary [of rt vae "rnd k" batch st] by blast
  obtain ev2 where ev2:
    "calls (fold (\<lambda>(k, batch) st. snd (train_step rt vae (rnd k) batch st)) kbs ?s) = calls ?s @ ev2"
    "epochs_begun ev2 = []" "encoder_calls ev2 = map snd kbs"
    "length (filter (\<lambda>e. e = ApplyGradients) ev2) = length kbs"
    using Cons.IH [of ?s] by blast
  have "calls (fold (\<lambda>(k, batch) st. snd (train_step rt vae (rnd k) batch st)) (kb # kbs) st) =
      calls st @ (ev1 @ ev2)"
    using ev1(1) ev2(1) by (simp add: kb)
  moreover have "epochs_begun (ev1 @ ev2) = []"
    using ev1 ev2 by (simp add: epochs_begun_append)
  moreover have "encoder_calls (ev1 @ ev2) = map snd (kb # kbs)"
    using ev1 ev2 by (simp add: encoder_calls_append kb)
  moreover have "length (filter (\<lambda>e. e = ApplyGradients) (ev1 @ ev2)) = length (kb # kbs)"
    using ev1 ev2 by simp
  ultimately show ?case by blast
qed

lemma steps_updates:
  "(optimizer (fold (\<lambda>(k, batch) st. snd (train_step rt vae (rnd k) batch st)) kbs st),
    trainable_weights (fold (\<lambda>(k, batch) st. snd (train_step rt vae (rnd k) batch st)) kbs st)) =
     fold (\<lambda>(k, batch). step_update rt vae (rnd k) batch) kbs (optimizer st, trainable_weights st)"
proof (induction kbs arbitrary: st)
  case Nil
  then show ?case by simp
next
  case (Cons kb kbs)
  obtain k batch where kb: "kb = (k, batch)" by (cases kb)
  show ?case
    using Cons.IH [of "snd (train_step rt vae (rnd k) batch st)"]
    by (simp add: kb train_step_step_update)
qed

lemma run_epoch_summary:
  "\<exists>ev. calls (run_epoch rt vae rnd bs st) = calls st @ ev \<and>
     epochs_begun ev = [] \<and> encoder_calls ev = bs \<and>
     length (filter (\<lambda>e. e = ApplyGradients) ev) = length bs"
  using steps_summary [of rt vae rnd "enumerate 0 bs" st]
  by (simp add: run_epoch_def)

lemma run_epoch_updates:
  "(optimizer (run_epoch rt vae rnd bs st), trainable_weights (run_epoch rt vae rnd bs st)) =
     fold (\<lambda>(k, batch). step_update rt vae (rnd k) batch) (enumerate 0 bs)
       (optimizer st, trainable_weights st)"
  unfolding run_epoch_def by (rule steps_updates)

lemma epochs_summary:
  "\<exists>ev. calls (fold (\<lambda>epoch st.
             run_epoch rt vae (rnd epoch) (batches n (shuffle rt epoch x))
               (log_call (EpochBegin epoch) (reset_metrics st))) es st) = calls st @ ev \<and>
     epochs_begun ev = es \<and>
     encoder_calls ev = concat (map (\<lambda>epoch. batches n (shuffle rt epoch x)) es) \<and>
     length (filter (\<lambda>e. e = ApplyGradients) ev) = length (encoder_calls ev)"
proof (induction es arbitrary: st)
  case Nil
  then show ?case by simp
next
  case (Cons e es)
  let ?F = "\<lambda>epoch st. run_epoch rt vae (rnd epoch) (batches n (shuffle rt epoch x))
               (log_call (EpochBegin epoch) (reset_metrics st))"
  let ?s0 = "log_call (EpochBegin e) (reset_metrics st)"
  obtain ev1 where ev1: "calls (?F e st) = calls ?s0 @ ev1" "epochs_begun ev1 = []"
      "encoder_calls ev1 = batches n (shuffle rt e x)"
      "length (filter (\<lambda>e. e = ApplyGradients) ev1) = length (batches n (shuffle rt e x))"
    using run_epoch_summary [of rt vae "rnd e" "batches n (shuffle rt e x)" ?s0] by blast
  obtain ev2 where ev2: "calls (fold ?F es (?F e st)) = calls (?F e st) @ ev2"
      "epochs_begun ev2 = es"
      "encoder_calls ev2 = concat (map (\<lambda>epoch. batches n (shuffle rt epoch x)) es)"
      "length (filter (\<lambda>e. e = ApplyGradients) ev2) = length (encoder_calls ev2)"
    using Cons.IH [of "?F e st"] by blast
  have c0: "calls ?s0 = calls st @ [EpochBegin e]"
    by (simp add: log_call_def reset_metrics_def)
  have "calls (fold ?F (e # es) st) = calls st @ (EpochBegin e # ev1 @ ev2)"
    using ev1(1) ev2(1) c0 by simp
  moreover have "epochs_begun (EpochBegin e # ev1 @ ev2) = e # es"
    using ev1 ev2 by (simp add: epochs_begun_append)
  moreover have "encoder_calls (EpochBegin e # ev1 @ ev2) =
      concat (map (\<lambda>epoch. batches n (shuffle rt epoch x)) (e # es))"
    using ev1 ev2 by (simp add: encoder_calls_append)
  moreover have "length (filter (\<lambda>e. e = ApplyGradients) (EpochBegin e # ev1 @ ev2)) =
      length (encoder_calls (EpochBegin e # ev1 @ ev2))"
    using ev1 ev2 by (simp add: encoder_calls_append)
  ultimately show ?case by blast
qed

lemma epochs_updates:
  "(optimizer (fold (\<lambda>epoch st.
             run_epoch rt vae (rnd epoch) (batches n (shuffle rt epoch x))
               (log_call (EpochBegin epoch) (reset_metrics st))) es st),
    trainable_weights (fold (\<lambda>epoch st.
             run_epoch rt vae (rnd epoch) (batches n (shuffle rt epoch x))
               (log_call (EpochBegin epoch) (reset_metrics st))) es st)) =
     fold (\<lambda>epoch ow. fold (\<lambda>(k, batch). step_update rt vae (rnd epoch k) batch)
                          (enumerate 0 (batches n (shuffle rt epoch x))) ow)
          es (optimizer st, trainable_weights st)"
proof (induction es arbitrary: st)
  case Nil
  then show ?case by simp
next
  case (Cons e es)
  have "optimizer (log_call (EpochBegin e) (reset_metrics st)) = optimizer st"
    and "trainable_weights (log_call (EpochBegin e) (reset_metrics st)) = trainable_weights st"
    by (simp_all add: log_call_def reset_metrics_def)
  then show ?case
    using Cons.IH [of "run_epoch rt vae (rnd e) (batches n (shuffle rt e x))
               (log_call (EpochBegin e) (reset_metrics st))"]
    by (simp add: run_epoch_updates)
qed

lemma fit_summary:
  assumes "x \<noteq> []"
  shows "\<exists>st' ev. fit rt vae rnd x epochs n st = Inr st' \<and>
     calls st' = calls st @ FitCall epochs n # ev \<and>
     epochs_begun ev = [0..<epochs] \<and>
     encoder_calls ev = concat (map (\<lambda>epoch. batches n (shuffle rt epoch x)) [0..<epochs]) \<and>
     length (filter (\<lambda>e. e = ApplyGradients) ev) = length (encoder_calls ev) \<and>
     (optimizer st', trainable_weights st') =
       fold (\<lambda>epoch ow. fold (\<lambda>(k, batch). step_update rt vae (rnd epoch k) batch)
                          (enumerate 0 (batches n (shuffle rt epoch x))) ow)
          [0..<epochs] (optimizer st, trainable_weights st)"
proof -
  let ?s0 = "log_call (FitCall epochs n) st"
  let ?F = "\<lambda>epoch st. run_epoch rt vae (rnd epoch) (batches n (shuffle rt epoch x))
               (log_call (EpochBegin epoch) (reset_metrics st))"
  obtain ev where ev: "calls (fold ?F [0..<epochs] ?s0) = calls ?s0 @ ev"
      "epochs_begun ev = [0..<epochs]"
      "encoder_calls ev = concat (map (\<lambda>epoch. batches n (shuffle rt epoch x)) [0..<epochs])"
      "length (filter (\<lambda>e. e = ApplyGradients) ev) = length (encoder_calls ev)"
    using epochs_summary [of rt vae rnd n x "[0..<epochs]" ?s0] by blast
  have up: "(optimizer (fold ?F [0..<epochs] ?s0), trainable_weights (fold ?F [0..<epochs] ?s0)) =
       fold (\<lambda>epoch ow. fold (\<lambda>(k, batch). step_update rt vae (rnd epoch k) batch)
                          (enumerate 0 (batches n (shuffle rt epoch x))) ow)
          [0..<epochs] (optimizer st, trainable_weights st)"
    using epochs_updates [of rt vae rnd n x "[0..<epochs]" ?s0] by (simp add: log_call_def)
  have f: "fit rt vae rnd x epochs n st = Inr (fold ?F [0..<epochs] ?s0)"
    using assms by (simp add: fit_def)
  have c: "calls (fold ?F [0..<epochs] ?s0) = calls st @ FitCall epochs n # ev"
    using ev(1) by (simp add: log_call_def)
  from f c ev(2,3,4) up show ?thesis by blast
qed

lemma fit_empty: "fit rt vae rnd [] epochs n st = Inl ValueError"
  by (simp add: fit_def)

lemma training_errors:
  "training rt w0 rnd loaded_shape [] = Inl ValueError"
  "loaded_shape \<noteq> encoder_input_shape \<Longrightarrow> training rt w0 rnd loaded_shape loaded = Inl ValueError"
  by (simp_all add: training_def Let_def fit_def)

text \<open>
  Claim C6. On a dataset that is not empty and whose examples have the input shape of the
  encoder, whatever the initial weights, the runtime and the noise, the training part of
  the script succeeds; it loads the dataset, creates the VAE, compiles it with Adam at
  learning rate 0.002 and calls \<open>fit\<close> with 1000 epochs and batch size 64, in this order.
  The epochs 0 to 999 begin once each; the batches given to the encoder are, epoch after
  epoch, the consecutive batches of at most 64 examples of the shuffled first 15000
  examples divided by 255; every batch gets one gradient update; and the final optimizer
  state and weights are those obtained from the Adam optimizer and the initial weights by
  the updates of all these batches, computed with the encoder and the decoder of the
  script.
\<close>

theorem training_fixed_schedule:
  assumes "loaded \<noteq> []" and "loaded_shape = encoder_input_shape"
  shows "\<exists>st ev x_train. x_train = map (map (\<lambda>v. v / 255)) (take 15000 loaded) \<and>
     training rt w0 rnd loaded_shape loaded = Inr st \<and>
     calls st = [NpLoad dataset_path, VAEInit, Compile (Adam 0.002), FitCall 1000 64] @ ev \<and>
     epochs_begun ev = [0..<1000] \<and>
     encoder_calls ev = concat (map (\<lambda>epoch. batches 64 (shuffle rt epoch x_train)) [0..<1000]) \<and>
     (\<forall>batch\<in>set (encoder_calls ev). batch \<noteq> [] \<and> length batch \<le> 64) \<and>
     length (filter (\<lambda>e. e = ApplyGradients) ev) = length (encoder_calls ev) \<and>
     (optimizer st, trainable_weights st) =
       fold (\<lambda>epoch ow.
               fold (\<lambda>(k, batch).
                       step_update rt \<lparr>self_encoder = encoder rt, self_decoder = decoder rt\<rparr>
                         (rnd epoch k) batch)
                    (enumerate 0 (batches 64 (shuffle rt epoch x_train))) ow)
            [0..<1000] (new_optimizer rt (Adam 0.002), w0)"
proof -
  let ?x = "map (map (\<lambda>v. v / 255)) (take 15000 loaded)"
  let ?st0 = "compile rt (Adam 0.002) w0 [NpLoad dataset_path, VAEInit]"
  have ne: "?x \<noteq> []" using assms(1) by (cases loaded) simp_all
  have tr: "training rt w0 rnd loaded_shape loaded = fit rt (script_vae rt) rnd ?x 1000 64 ?st0"
    using assms(2) by (simp add: training_def Let_def)
  obtain st ev where f: "fit rt (script_vae rt) rnd ?x 1000 64 ?st0 = Inr st"
    and c: "calls st = calls ?st0 @ FitCall 1000 64 # ev"
    and e: "epochs_begun ev = [0..<1000]"
    and b: "encoder_calls ev = concat (map (\<lambda>epoch. batches 64 (shuffle rt epoch ?x)) [0..<1000])"
    and a: "length (filter (\<lambda>e. e = ApplyGradients) ev) = length (encoder_calls ev)"
    and u: "(optimizer st, trainable_weights st) =
       fold (\<lambda>epoch ow. fold (\<lambda>(k, batch). step_update rt (script_vae rt) (rnd epoch k) batch)
                          (enumerate 0 (batches 64 (shuffle rt epoch ?x))) ow)
          [0..<1000] (optimizer ?st0, trainable_weights ?st0)"
    using fit_summary [OF ne, of rt "script_vae rt" rnd 1000 64 ?st0] by blast
  have c': "calls st = [NpLoad dataset_path, VAEInit, Compile (Adam 0.002), FitCall 1000 64] @ ev"
    using c by (simp add: compile_def)
  have sizes: "\<forall>batch\<in>set (encoder_calls ev). batch \<noteq> [] \<and> length batch \<le> 64"
    unfolding b using batches_sizes [of 64] by auto
  have u': "(optimizer st, trainable_weights st) =
       fold (\<lambda>epoch ow.
               fold (\<lambda>(k, batch).
                       step_update rt \<lparr>self_encoder = encoder rt, self_decoder = decoder rt\<rparr>
                         (rnd epoch k) batch)
                    (enumerate 0 (batches 64 (shuffle rt epoch ?x))) ow)
            [0..<1000] (new_optimizer rt (Adam 0.002), w0)"
    using u by (simp add: compile_def script_vae_def)
  have tf: "training rt w0 rnd loaded_shape loaded = Inr st" using tr f by simp
  show ?thesis
    by (rule exI [where x = st], rule exI [where x = ev], rule exI [where x = "?x"])
      (intro conjI refl tf c' e b sizes a u')
qed

theorem training_fixed_schedule_witness:
  "[replicate (60 * 60 * 3) 0] \<noteq> ([] :: tensor) \<and> [60, 60, 3] = encoder_input_shape \<and>
   (\<exists>st. training demo_runtime () (\<lambda>epoch k. no_noise) [60, 60, 3] [replicate (60 * 60 * 3) 0] = Inr st \<and>
      take 4 (calls st) = [NpLoad dataset_path, VAEInit, Compile (Adam 0.002), FitCall 1000 64] \<and>
      epochs_begun (drop 4 (calls st)) = [0..<1000] \<and>
      length (encoder_calls (drop 4 (calls st))) = 1000)"
proof -
  have h1: "[replicate (60 * 60 * 3) 0] \<noteq> ([] :: tensor)" by simp
  have h2: "[60, 60, 3] = encoder_input_shape" by (simp add: encoder_input_shape_def)
  from training_fixed_schedule [OF h1 h2, of demo_runtime "()" "\<lambda>epoch k. no_noise"]
  obtain st ev where t: "training demo_runtime () (\<lambda>epoch k. no_noise) [60, 60, 3]
        [replicate (60 * 60 * 3) 0] = Inr st"
    and c: "calls st = [NpLoad dataset_path, VAEInit, Compile (Adam 0.002), FitCall 1000 64] @ ev"
    and e: "epochs_begun ev = [0..<1000]"
    and b: "encoder_calls ev = concat (map (\<lambda>epoch. batches 64 (shuffle demo_runtime epoch
        (map (map (\<lambda>v. v / 255)) (take 15000 [replicate (60 * 60 * 3) 0])))) [0..<1000])"
    by blast
  have one: "batches 64 [r] = [[r]]" for r :: "real list"
    by (simp add: batches_step)
  from b have "length (encoder_calls ev) = 1000"
    by (simp add: demo_runtime_def one length_concat comp_def sum_list_triv)
  with c e t h1 h2 show ?thesis by simp
qed

end
